theory Spec2Isabelle
  imports Main
begin

section \<open>Python values\<close>

text \<open>
  The two extraction scripts work on dynamically typed Python values. A value decoded
  from a JSON blob is \<^verbatim>\<open>None\<close>, a boolean, an integer, a string, a list or a dict with
  string keys; the blobs written by \<^verbatim>\<open>stages/process.py\<close> (xmltodict followed by
  \<^verbatim>\<open>json.dumps\<close>) contain only \<^verbatim>\<open>None\<close>, strings, lists and dicts, so JSON numbers with a
  fraction or an exponent are not represented. A dict is an association list in insertion
  order; lookup takes the first entry of a key, and the dicts that a decoder returns have
  no key twice.

  A character is a code point below 256 (Latin-1), so \<open>length\<close> counts what Python's
  \<^verbatim>\<open>len\<close> counts on such text. An exception is a value of \<open>py_error\<close>, and a computation
  that may raise has the type \<open>py_error + 'a\<close>. \<open>OtherError\<close> stands for the exceptions of
  the libraries that are parameters of the model: the Arrow and Parquet writer and the file
  system.
\<close>

datatype pyval =
    PNone
  | PBool bool
  | PInt int
  | PStr string
  | PList "pyval list"
  | PDict "(string \<times> pyval) list"

datatype py_error =
    JSONDecodeError | AttributeError | TypeError | ValueError | OtherError

definition bind_err :: "py_error + 'a \<Rightarrow> ('a \<Rightarrow> py_error + 'b) \<Rightarrow> py_error + 'b" where
  "bind_err m f = (case m of Inl e \<Rightarrow> Inl e | Inr v \<Rightarrow> f v)"

fun truthy :: "pyval \<Rightarrow> bool" where
  "truthy PNone = False"
| "truthy (PBool b) = b"
| "truthy (PInt i) = (i \<noteq> 0)"
| "truthy (PStr s) = (s \<noteq> [])"
| "truthy (PList xs) = (xs \<noteq> [])"
| "truthy (PDict kvs) = (kvs \<noteq> [])"

definition py_or :: "pyval \<Rightarrow> pyval \<Rightarrow> pyval" where
  "py_or a b = (if truthy a then a else b)"

subsection \<open>Digits and \<^verbatim>\<open>int()\<close>\<close>

text \<open>
  \<^verbatim>\<open>str.isdigit\<close> accepts the ASCII digits and, below code point 256, the superscripts
  one, two and three (178, 179, 185); \<^verbatim>\<open>int()\<close> accepts only the ASCII digits, with
  surrounding white space, one sign and single underscores between digits, and raises
  \<^verbatim>\<open>ValueError\<close> on anything else. Python integers are unbounded, but a conversion
  between a string and an integer raises \<^verbatim>\<open>ValueError\<close> beyond 4300 digits (the
  interpreter's default \<^verbatim>\<open>int_max_str_digits\<close>; signs, white space and underscores are not
  counted, leading zeros are). The decoder converts with \<^verbatim>\<open>int()\<close> too, so that an integer
  value has at most 4300 digits and \<^verbatim>\<open>str()\<close> of a value does not raise.
\<close>

definition code_point :: "char \<Rightarrow> nat" where
  "code_point c = of_char c"

definition is_decimal_char :: "char \<Rightarrow> bool" where
  "is_decimal_char c = (48 \<le> code_point c \<and> code_point c \<le> 57)"

definition is_digit_char :: "char \<Rightarrow> bool" where
  "is_digit_char c =
     (is_decimal_char c \<or> code_point c = 178 \<or> code_point c = 179 \<or> code_point c = 185)"

definition isdigit :: "string \<Rightarrow> bool" where
  "isdigit s = (s \<noteq> [] \<and> list_all is_digit_char s)"

definition isdecimal :: "string \<Rightarrow> bool" where
  "isdecimal s = (s \<noteq> [] \<and> list_all is_decimal_char s)"

definition digit_value :: "char \<Rightarrow> nat" where
  "digit_value c = code_point c - 48"

definition decimal_value :: "string \<Rightarrow> nat" where
  "decimal_value s = foldl (\<lambda>acc c. 10 * acc + digit_value c) 0 s"

definition is_int_space :: "char \<Rightarrow> bool" where
  "is_int_space c =
     ((9 \<le> code_point c \<and> code_point c \<le> 13) \<or> code_point c = 32
       \<or> code_point c = 133 \<or> code_point c = 160)"

fun digits_ok :: "string \<Rightarrow> bool" where
  "digits_ok [] = False"
| "digits_ok [c] = is_decimal_char c"
| "digits_ok (c # d # r) =
     (is_decimal_char c \<and> (if d = CHR ''_'' then digits_ok r else digits_ok (d # r)))"

definition max_str_digits :: nat where
  "max_str_digits = 4300"

definition int_body :: "string \<Rightarrow> py_error + int" where
  "int_body b =
     (if digits_ok b then
        (let ds = filter (\<lambda>c. c \<noteq> CHR ''_'') b
         in if max_str_digits < length ds then Inl ValueError
            else Inr (int (decimal_value ds)))
      else Inl ValueError)"

definition py_int :: "string \<Rightarrow> py_error + int" where
  "py_int s =
     (let t = dropWhile is_int_space (rev (dropWhile is_int_space (rev s)))
      in case t of
           [] \<Rightarrow> Inl ValueError
         | c # r \<Rightarrow>
             if c = CHR ''-'' then bind_err (int_body r) (\<lambda>n. Inr (- n))
             else if c = CHR ''+'' then int_body r
             else int_body t)"

text \<open>\<^verbatim>\<open>int(v)\<close> for a value: a string is parsed, an integer or boolean is taken as it is.\<close>

definition int_of :: "pyval \<Rightarrow> py_error + int" where
  "int_of v =
     (case v of
        PStr s \<Rightarrow> py_int s
      | PInt i \<Rightarrow> Inr i
      | PBool b \<Rightarrow> Inr (if b then 1 else 0)
      | _ \<Rightarrow> Inl TypeError)"

subsection \<open>\<^verbatim>\<open>str()\<close>, \<^verbatim>\<open>repr()\<close>, \<^verbatim>\<open>join\<close> and \<^verbatim>\<open>strip\<close>\<close>

fun dec_of_nat :: "nat \<Rightarrow> string" where
  "dec_of_nat n =
     (if n < 10 then [''0123456789'' ! n]
      else dec_of_nat (n div 10) @ [''0123456789'' ! (n mod 10)])"

declare dec_of_nat.simps [simp del]

definition dec_of_int :: "int \<Rightarrow> string" where
  "dec_of_int i = (if i < 0 then CHR ''-'' # dec_of_nat (nat (- i)) else dec_of_nat (nat i))"

definition hex2 :: "nat \<Rightarrow> string" where
  "hex2 n = [''0123456789abcdef'' ! (n div 16), ''0123456789abcdef'' ! (n mod 16)]"

definition is_printable :: "char \<Rightarrow> bool" where
  "is_printable c =
     (32 \<le> code_point c \<and> code_point c \<noteq> 127
      \<and> \<not> (128 \<le> code_point c \<and> code_point c \<le> 160) \<and> code_point c \<noteq> 173)"

definition repr_char :: "char \<Rightarrow> char \<Rightarrow> string" where
  "repr_char q c =
     (if c = q \<or> c = CHR 0x5C then [CHR 0x5C, c]
      else if c = CHR 0x09 then [CHR 0x5C, CHR ''t'']
      else if c = CHR 0x0A then [CHR 0x5C, CHR ''n'']
      else if c = CHR 0x0D then [CHR 0x5C, CHR ''r'']
      else if is_printable c then [c]
      else [CHR 0x5C, CHR ''x''] @ hex2 (code_point c))"

definition repr_str :: "string \<Rightarrow> string" where
  "repr_str s =
     (let q = (if CHR 0x27 \<in> set s \<and> CHR 0x22 \<notin> set s then CHR 0x22 else CHR 0x27)
      in [q] @ concat (map (repr_char q) s) @ [q])"

fun join :: "string \<Rightarrow> string list \<Rightarrow> string" where
  "join sep [] = []"
| "join sep [x] = x"
| "join sep (x # y # ys) = x @ sep @ join sep (y # ys)"

fun py_repr :: "pyval \<Rightarrow> string"
  and py_repr_list :: "pyval list \<Rightarrow> string list"
  and py_repr_items :: "(string \<times> pyval) list \<Rightarrow> string list" where
  "py_repr PNone = ''None''"
| "py_repr (PBool b) = (if b then ''True'' else ''False'')"
| "py_repr (PInt i) = dec_of_int i"
| "py_repr (PStr s) = repr_str s"
| "py_repr (PList xs) = ''['' @ join '', '' (py_repr_list xs) @ '']''"
| "py_repr (PDict kvs) = ''{'' @ join '', '' (py_repr_items kvs) @ ''}''"
| "py_repr_list [] = []"
| "py_repr_list (x # xs) = py_repr x # py_repr_list xs"
| "py_repr_items [] = []"
| "py_repr_items ((k, v) # kvs) = (repr_str k @ '': '' @ py_repr v) # py_repr_items kvs"

definition py_str :: "pyval \<Rightarrow> string" where
  "py_str v = (case v of PStr s \<Rightarrow> s | _ \<Rightarrow> py_repr v)"

text \<open>\<^verbatim>\<open>sep.join(parts)\<close> raises \<^verbatim>\<open>TypeError\<close> unless every part is a string.\<close>

fun strings_of :: "pyval list \<Rightarrow> py_error + string list" where
  "strings_of [] = Inr []"
| "strings_of (PStr s # vs) = bind_err (strings_of vs) (\<lambda>ss. Inr (s # ss))"
| "strings_of (v # vs) = Inl TypeError"

definition py_join :: "string \<Rightarrow> pyval list \<Rightarrow> py_error + string" where
  "py_join sep parts = bind_err (strings_of parts) (\<lambda>ss. Inr (join sep ss))"

definition py_strip :: "string \<Rightarrow> string \<Rightarrow> string" where
  "py_strip chars s =
     dropWhile (\<lambda>c. c \<in> set chars) (rev (dropWhile (\<lambda>c. c \<in> set chars) (rev s)))"

subsection \<open>Dict access\<close>

definition dict_get :: "(string \<times> pyval) list \<Rightarrow> string \<Rightarrow> pyval \<Rightarrow> pyval" where
  "dict_get kvs key dflt = (case map_of kvs key of None \<Rightarrow> dflt | Some v \<Rightarrow> v)"

text \<open>\<^verbatim>\<open>d.get(key, dflt)\<close> on a value that need not be a dict: only dicts have \<^verbatim>\<open>get\<close>.\<close>

definition py_get :: "pyval \<Rightarrow> string \<Rightarrow> pyval \<Rightarrow> py_error + pyval" where
  "py_get d key dflt =
     (case d of PDict kvs \<Rightarrow> Inr (dict_get kvs key dflt) | _ \<Rightarrow> Inl AttributeError)"

text \<open>\<^verbatim>\<open>len(v)\<close>, \<^verbatim>\<open>v[:n]\<close> and the method call \<^verbatim>\<open>v.isdigit()\<close> on an arbitrary value.
  Slicing a dict raises; the exception is \<^verbatim>\<open>TypeError\<close> or \<^verbatim>\<open>KeyError\<close> with the version of the
  interpreter, and is \<open>TypeError\<close> here.\<close>

definition py_len :: "pyval \<Rightarrow> py_error + nat" where
  "py_len v =
     (case v of
        PStr s \<Rightarrow> Inr (length s)
      | PList xs \<Rightarrow> Inr (length xs)
      | PDict kvs \<Rightarrow> Inr (length kvs)
      | _ \<Rightarrow> Inl TypeError)"

definition py_prefix :: "nat \<Rightarrow> pyval \<Rightarrow> py_error + pyval" where
  "py_prefix n v =
     (case v of
        PStr s \<Rightarrow> Inr (PStr (take n s))
      | PList xs \<Rightarrow> Inr (PList (take n xs))
      | _ \<Rightarrow> Inl TypeError)"

definition isdigit_method :: "pyval \<Rightarrow> py_error + bool" where
  "isdigit_method v = (case v of PStr s \<Rightarrow> Inr (isdigit s) | _ \<Rightarrow> Inl AttributeError)"

section \<open>The flat row\<close>

text \<open>
  Both scripts build the same thirteen-column row (\<^verbatim>\<open>SCHEMA\<close>). In the blob path the
  title, the DOI and the journal can be any decoded value (the text found under
  \<^verbatim>\<open>#text\<close>), so these three columns hold a \<open>pyval\<close>.
\<close>

record flat_row =
  PMID :: int
  Title :: pyval
  Abstract :: string
  DOI :: pyval
  Year :: "int option"
  Authors :: string
  Journal :: pyval
  MeSH_Terms :: string
  Keywords :: string
  Pub_Types :: string
  Date_Created :: string
  Date_Revised :: string
  JSON :: string

section \<open>Reprocessing stored blobs (\<^verbatim>\<open>stages_v2/reprocess_parquet.py\<close>)\<close>

subsection \<open>\<^verbatim>\<open>safe_get\<close> and \<^verbatim>\<open>extract_text\<close>\<close>

fun safe_get :: "pyval \<Rightarrow> string list \<Rightarrow> pyval" where
  "safe_get d [] = (if truthy d \<and> d \<noteq> PDict [] then d else PStr [])"
| "safe_get d (key # keys) =
     (case d of
        PDict kvs \<Rightarrow> safe_get (dict_get kvs key (PDict [])) keys
      | _ \<Rightarrow> PStr [])"

text \<open>
  \<^verbatim>\<open>extract_text\<close> is annotated to return a string, but the value under \<^verbatim>\<open>#text\<close> is
  returned as it is, whatever its type; on a list, \<^verbatim>\<open>' '.join\<close> then raises when an item
  did not come out as a string.
\<close>

fun extract_text :: "pyval \<Rightarrow> py_error + pyval"
  and extract_text_items :: "pyval list \<Rightarrow> py_error + pyval list" where
  "extract_text PNone = Inr (PStr [])"
| "extract_text (PStr s) = Inr (PStr s)"
| "extract_text (PDict kvs) = Inr (dict_get kvs ''#text'' (PStr (py_str (PDict kvs))))"
| "extract_text (PList xs) =
     bind_err (extract_text_items xs)
       (\<lambda>ts. bind_err (py_join '' '' ts) (\<lambda>s. Inr (PStr s)))"
| "extract_text (PBool b) = Inr (PStr (py_str (PBool b)))"
| "extract_text (PInt i) = Inr (PStr (py_str (PInt i)))"
| "extract_text_items [] = Inr []"
| "extract_text_items (x # xs) =
     bind_err (extract_text x)
       (\<lambda>t. bind_err (extract_text_items xs) (\<lambda>ts. Inr (t # ts)))"

subsection \<open>The fields of \<^verbatim>\<open>extract_fields\<close>, in the order of the source\<close>

text \<open>The identifier: the blob's \<^verbatim>\<open>PMID/#text\<close>, or else the row's own identifier string.\<close>

definition get_pmid :: "pyval \<Rightarrow> string \<Rightarrow> py_error + int" where
  "get_pmid medline pmid =
     (let pmid_val = py_or (safe_get medline [''PMID'', ''#text'']) (PStr pmid)
      in if isdigit (py_str pmid_val) then int_of pmid_val else Inr 0)"

definition abstract_item :: "pyval \<Rightarrow> pyval" where
  "abstract_item item =
     (case item of
        PDict kvs \<Rightarrow>
          (let label = dict_get kvs ''@Label'' (PStr []);
               txt = dict_get kvs ''#text'' (PStr (py_str item))
           in if truthy label then PStr (py_str label @ '': '' @ py_str txt) else txt)
      | _ \<Rightarrow> PStr (py_str item))"

definition get_abstract :: "pyval \<Rightarrow> py_error + string" where
  "get_abstract article =
     (let abstract_data = safe_get article [''Abstract'', ''AbstractText''];
          abstract_parts =
            (if truthy abstract_data then
               (case abstract_data of
                  PList items \<Rightarrow> map abstract_item items
                | PDict kvs \<Rightarrow> [dict_get kvs ''#text'' (PStr (py_str abstract_data))]
                | _ \<Rightarrow> [PStr (py_str abstract_data)])
             else [])
      in py_join '' '' abstract_parts)"

text \<open>The DOI: the loop over the identifier list breaks at the first match.\<close>

definition is_doi :: "pyval \<Rightarrow> bool" where
  "is_doi aid =
     (case aid of PDict kvs \<Rightarrow> dict_get kvs ''@IdType'' PNone = PStr ''doi'' | _ \<Rightarrow> False)"

definition id_text :: "pyval \<Rightarrow> pyval" where
  "id_text aid = (case aid of PDict kvs \<Rightarrow> dict_get kvs ''#text'' (PStr []) | _ \<Rightarrow> PStr [])"

fun first_doi :: "pyval list \<Rightarrow> pyval" where
  "first_doi [] = PStr []"
| "first_doi (aid # rest) = (if is_doi aid then id_text aid else first_doi rest)"

definition get_doi :: "pyval \<Rightarrow> pyval" where
  "get_doi pubmed_data =
     (let article_ids = safe_get pubmed_data [''ArticleIdList'', ''ArticleId'']
      in if truthy article_ids then
           (case article_ids of
              PList aids \<Rightarrow> first_doi aids
            | PDict kvs \<Rightarrow> (if is_doi article_ids then id_text article_ids else PStr [])
            | _ \<Rightarrow> PStr [])
         else PStr [])"

text \<open>
  The year: the \<^verbatim>\<open>Year\<close> entry first; the fallback to \<^verbatim>\<open>MedlineDate\<close> runs under
  \<^verbatim>\<open>if not year\<close>, which holds for \<^verbatim>\<open>None\<close> and for the integer 0.
\<close>

definition explicit_year :: "(string \<times> pyval) list \<Rightarrow> py_error + int option" where
  "explicit_year pub_date =
     (let year_str = dict_get pub_date ''Year'' (PStr [])
      in if truthy year_str \<and> isdigit (py_str year_str)
         then bind_err (int_of year_str) (\<lambda>y. Inr (Some y))
         else Inr None)"

definition medline_year :: "(string \<times> pyval) list \<Rightarrow> int option \<Rightarrow> py_error + int option" where
  "medline_year pub_date year =
     (let medline_date = dict_get pub_date ''MedlineDate'' (PStr [])
      in if truthy medline_date then
           bind_err (py_len medline_date) (\<lambda>n.
             if 4 \<le> n then
               bind_err (py_prefix 4 medline_date) (\<lambda>year_str.
                 bind_err (isdigit_method year_str) (\<lambda>dig.
                   if dig then bind_err (int_of year_str) (\<lambda>y. Inr (Some y))
                   else Inr year))
             else Inr year)
         else Inr year)"

definition not_year :: "int option \<Rightarrow> bool" where
  "not_year year = (year = None \<or> year = Some 0)"

definition get_year :: "pyval \<Rightarrow> py_error + int option" where
  "get_year article =
     (case safe_get article [''Journal'', ''JournalIssue'', ''PubDate''] of
        PDict pub_date \<Rightarrow>
          bind_err (explicit_year pub_date) (\<lambda>year.
            if not_year year then medline_year pub_date year else Inr year)
      | _ \<Rightarrow> Inr None)"

definition author_entry :: "pyval \<Rightarrow> string list" where
  "author_entry author =
     (case author of
        PDict kvs \<Rightarrow>
          (let last = dict_get kvs ''LastName'' (PStr []);
               first = dict_get kvs ''ForeName'' (PStr [])
           in if truthy last then [py_strip '', '' (py_str last @ '', '' @ py_str first)]
              else [])
      | _ \<Rightarrow> [])"

definition get_authors :: "pyval \<Rightarrow> string" where
  "get_authors article =
     (let author_list = safe_get article [''AuthorList'', ''Author''];
          authors =
            (if truthy author_list then
               (case author_list of
                  PList xs \<Rightarrow> concat (map author_entry xs)
                | PDict kvs \<Rightarrow> author_entry author_list
                | _ \<Rightarrow> [])
             else [])
      in join ''; '' authors)"

definition mesh_entry :: "pyval \<Rightarrow> pyval list" where
  "mesh_entry mesh =
     (case mesh of
        PDict kvs \<Rightarrow>
          (case dict_get kvs ''DescriptorName'' (PDict []) of
             PDict d \<Rightarrow> [dict_get d ''#text'' (PStr [])]
           | PStr s \<Rightarrow> [PStr s]
           | _ \<Rightarrow> [])
      | _ \<Rightarrow> [])"

definition mesh_single :: "(string \<times> pyval) list \<Rightarrow> pyval list" where
  "mesh_single kvs =
     (case dict_get kvs ''DescriptorName'' (PDict []) of
        PDict d \<Rightarrow> [dict_get d ''#text'' (PStr [])]
      | _ \<Rightarrow> [])"

definition get_mesh :: "pyval \<Rightarrow> py_error + string" where
  "get_mesh medline =
     (let mesh_list = safe_get medline [''MeshHeadingList'', ''MeshHeading''];
          mesh_terms =
            (if truthy mesh_list then
               (case mesh_list of
                  PList xs \<Rightarrow> concat (map mesh_entry xs)
                | PDict kvs \<Rightarrow> mesh_single kvs
                | _ \<Rightarrow> [])
             else [])
      in py_join ''; '' mesh_terms)"

definition text_entry :: "pyval \<Rightarrow> pyval list" where
  "text_entry item =
     (case item of
        PDict kvs \<Rightarrow> [dict_get kvs ''#text'' (PStr [])]
      | PStr s \<Rightarrow> [PStr s]
      | _ \<Rightarrow> [])"

definition get_keywords :: "pyval \<Rightarrow> py_error + string" where
  "get_keywords medline =
     (let kw_list = safe_get medline [''KeywordList'', ''Keyword''];
          keywords =
            (if truthy kw_list then
               (case kw_list of
                  PList xs \<Rightarrow> concat (map text_entry xs)
                | PDict kvs \<Rightarrow> [dict_get kvs ''#text'' (PStr [])]
                | PStr s \<Rightarrow> [PStr s]
                | _ \<Rightarrow> [])
             else [])
      in py_join ''; '' keywords)"

definition get_pub_types :: "pyval \<Rightarrow> py_error + string" where
  "get_pub_types article =
     (let pt_list = safe_get article [''PublicationTypeList'', ''PublicationType''];
          pub_types =
            (if truthy pt_list then
               (case pt_list of
                  PList xs \<Rightarrow> concat (map text_entry xs)
                | PDict kvs \<Rightarrow> [dict_get kvs ''#text'' (PStr [])]
                | _ \<Rightarrow> [])
             else [])
      in py_join ''; '' pub_types)"

definition date_of :: "pyval \<Rightarrow> string" where
  "date_of dc =
     (case dc of
        PDict kvs \<Rightarrow>
          (if truthy (dict_get kvs ''Year'' PNone)
           then py_str (dict_get kvs ''Year'' (PStr [])) @ ''-''
                @ py_str (dict_get kvs ''Month'' (PStr ''01'')) @ ''-''
                @ py_str (dict_get kvs ''Day'' (PStr ''01''))
           else [])
      | _ \<Rightarrow> [])"

subsection \<open>\<^verbatim>\<open>extract_fields\<close>\<close>

text \<open>The row returned when \<^verbatim>\<open>json.loads\<close> raises \<^verbatim>\<open>JSONDecodeError\<close>.\<close>

definition degraded_row :: "string \<Rightarrow> string \<Rightarrow> py_error + flat_row" where
  "degraded_row pmid json_str =
     bind_err (if isdigit pmid then py_int pmid else Inr 0) (\<lambda>pmid_int.
       Inr \<lparr>PMID = pmid_int, Title = PStr [], Abstract = [], DOI = PStr [], Year = None,
            Authors = [], Journal = PStr [], MeSH_Terms = [], Keywords = [],
            Pub_Types = [], Date_Created = [], Date_Revised = [], JSON = json_str\<rparr>)"

text \<open>The body after a successful decode. Every \<^verbatim>\<open>.get\<close> on \<^verbatim>\<open>data\<close>, \<^verbatim>\<open>medline\<close> and
  \<^verbatim>\<open>article\<close> is a method call that raises \<^verbatim>\<open>AttributeError\<close> when the value is not a dict.\<close>

definition extract_decoded :: "pyval \<Rightarrow> string \<Rightarrow> string \<Rightarrow> py_error + flat_row" where
  "extract_decoded data pmid json_str =
     bind_err (py_get data ''MedlineCitation'' (PDict [])) (\<lambda>medline.
     bind_err (py_get medline ''Article'' (PDict [])) (\<lambda>article.
     bind_err (py_get data ''PubmedData'' (PDict [])) (\<lambda>pubmed_data.
     bind_err (get_pmid medline pmid) (\<lambda>pmid_int.
     bind_err (bind_err (py_get article ''ArticleTitle'' (PStr [])) extract_text) (\<lambda>title.
     bind_err (get_abstract article) (\<lambda>abstract.
     bind_err (get_year article) (\<lambda>year.
     bind_err (extract_text (safe_get article [''Journal'', ''Title''])) (\<lambda>journal.
     bind_err (get_mesh medline) (\<lambda>mesh_str.
     bind_err (get_keywords medline) (\<lambda>keywords_str.
     bind_err (get_pub_types article) (\<lambda>pub_types_str.
     bind_err (py_get medline ''DateCreated'' (PDict [])) (\<lambda>dc.
     bind_err (py_get medline ''DateRevised'' (PDict [])) (\<lambda>dr.
       Inr \<lparr>PMID = pmid_int, Title = title, Abstract = abstract,
            DOI = get_doi pubmed_data, Year = year, Authors = get_authors article,
            Journal = journal, MeSH_Terms = mesh_str, Keywords = keywords_str,
            Pub_Types = pub_types_str, Date_Created = date_of dc,
            Date_Revised = date_of dr, JSON = json_str\<rparr>)))))))))))))"

text \<open>
  \<^verbatim>\<open>json.loads\<close> is the standard library's decoder and is a parameter \<open>loads\<close>: it returns
  the decoded value or the exception it raised. Only \<^verbatim>\<open>JSONDecodeError\<close> is caught.
\<close>

definition extract_fields ::
  "(string \<Rightarrow> py_error + pyval) \<Rightarrow> string \<Rightarrow> string \<Rightarrow> py_error + flat_row" where
  "extract_fields loads pmid json_str =
     (case loads json_str of
        Inl e \<Rightarrow> (if e = JSONDecodeError then degraded_row pmid json_str else Inl e)
      | Inr data \<Rightarrow> extract_decoded data pmid json_str)"

subsection \<open>Routing rows into per-year buckets\<close>

text \<open>
  \<^verbatim>\<open>records_by_year\<close> is a dict from the partition key to the list of rows, kept here in
  insertion order. The key is \<^verbatim>\<open>record['Year'] or 0\<close>.
\<close>

type_synonym buckets = "(int \<times> flat_row list) list"

definition partition_key :: "flat_row \<Rightarrow> int" where
  "partition_key record = (case Year record of None \<Rightarrow> 0 | Some y \<Rightarrow> (if y \<noteq> 0 then y else 0))"

text \<open>Lines \<^verbatim>\<open>if year not in records_by_year: records_by_year[year] = []\<close> and
  \<^verbatim>\<open>records_by_year[year].append(record)\<close>.\<close>

fun bucket_append :: "int \<Rightarrow> flat_row \<Rightarrow> buckets \<Rightarrow> buckets" where
  "bucket_append year record [] = [(year, [record])]"
| "bucket_append year record ((y, rs) # rest) =
     (if y = year then (y, rs @ [record]) # rest
      else (y, rs) # bucket_append year record rest)"

definition route :: "buckets \<Rightarrow> flat_row \<Rightarrow> buckets" where
  "route records_by_year record = bucket_append (partition_key record) record records_by_year"

subsection \<open>Writing the partitions\<close>

text \<open>
  The output tree maps a partition directory \<^verbatim>\<open>year=<key>\<close> and a file name to the rows of
  the table written there. Creating the directory, building the Arrow table and writing the
  file are library calls: \<open>writer\<close> tells whether they succeed for a key, a name and a
  list of rows, and a failure is an exception that ends the task, leaving the partitions
  written so far. The column types of \<^verbatim>\<open>SCHEMA\<close> are enforced there: building the table
  fails for an identifier beyond 64 bits, a year beyond 32 bits or a text column that holds
  something other than a string or \<^verbatim>\<open>None\<close>. The file name is derived from the input path by
  \<open>out_name\<close> (\<^verbatim>\<open>pathlib\<close>'s stem followed by \<^verbatim>\<open>.parquet\<close>).
\<close>

type_synonym store = "int \<times> string \<Rightarrow> flat_row list option"

type_synonym writer = "int \<Rightarrow> string \<Rightarrow> flat_row list \<Rightarrow> bool"

record file_stats =
  input_file :: string
  records :: nat
  years :: "(int \<times> nat) list"

text \<open>\<^verbatim>\<open>d[k] = v\<close> on a dict in insertion order.\<close>

fun dict_set :: "'k \<Rightarrow> 'v \<Rightarrow> ('k \<times> 'v) list \<Rightarrow> ('k \<times> 'v) list" where
  "dict_set k v [] = [(k, v)]"
| "dict_set k v ((k', v') # rest) =
     (if k' = k then (k', v) # rest else (k', v') # dict_set k v rest)"

fun write_partitions ::
  "writer \<Rightarrow> string \<Rightarrow> buckets \<Rightarrow> store \<Rightarrow> (int \<times> nat) list
     \<Rightarrow> store \<times> (py_error + (int \<times> nat) list)" where
  "write_partitions wr name [] st ys = (st, Inr ys)"
| "write_partitions wr name ((year, rs) # rest) st ys =
     (if wr year name rs
      then write_partitions wr name rest (st((year, name) \<mapsto> rs))
             (dict_set year (length rs) ys)
      else (st, Inl OtherError))"

subsection \<open>\<^verbatim>\<open>process_parquet_file\<close>\<close>

text \<open>
  The input table is the list of its rows: the \<^verbatim>\<open>PMID\<close> cell (passed through \<^verbatim>\<open>str\<close>) and
  the \<^verbatim>\<open>JSON\<close> cell, a string. The first loop stops at the first row whose extraction
  raises; nothing has been written then.
\<close>

record parquet_input =
  input_path :: string
  table_rows :: "(pyval \<times> string) list"

fun extract_all ::
  "(string \<Rightarrow> py_error + pyval) \<Rightarrow> (pyval \<times> string) list \<Rightarrow> buckets \<Rightarrow> py_error + buckets" where
  "extract_all loads [] records_by_year = Inr records_by_year"
| "extract_all loads ((pmid, json_str) # rest) records_by_year =
     bind_err (extract_fields loads (py_str pmid) json_str)
       (\<lambda>record. extract_all loads rest (route records_by_year record))"

definition process_parquet_file ::
  "(string \<Rightarrow> string) \<Rightarrow> (string \<Rightarrow> py_error + pyval) \<Rightarrow> writer \<Rightarrow> parquet_input \<Rightarrow> store
     \<Rightarrow> store \<times> (py_error + file_stats)" where
  "process_parquet_file out_name loads wr inp st =
     (case extract_all loads (table_rows inp) [] of
        Inl e \<Rightarrow> (st, Inl e)
      | Inr records_by_year \<Rightarrow>
          (case write_partitions wr (out_name (input_path inp)) records_by_year st [] of
             (st', Inl e) \<Rightarrow> (st', Inl e)
           | (st', Inr ys) \<Rightarrow>
               (st', Inr \<lparr>input_file = input_path inp,
                          records = length (table_rows inp), years = ys\<rparr>)))"

subsection \<open>The aggregation in \<^verbatim>\<open>main\<close>\<close>

text \<open>
  \<^verbatim>\<open>main\<close> folds the results of the tasks, in the order in which they complete, into
  \<^verbatim>\<open>total_records\<close> and \<^verbatim>\<open>year_totals\<close>; a task that raised contributes nothing.
\<close>

record run_metadata =
  total_records :: nat
  year_distribution :: "(int \<times> nat) list"

definition dict_get_nat :: "(int \<times> nat) list \<Rightarrow> int \<Rightarrow> nat" where
  "dict_get_nat d k = (case map_of d k of None \<Rightarrow> 0 | Some c \<Rightarrow> c)"

fun add_year_counts :: "(int \<times> nat) list \<Rightarrow> (int \<times> nat) list \<Rightarrow> (int \<times> nat) list" where
  "add_year_counts [] year_totals = year_totals"
| "add_year_counts ((year, cnt) # rest) year_totals =
     add_year_counts rest (dict_set year (dict_get_nat year_totals year + cnt) year_totals)"

definition add_stats :: "run_metadata \<Rightarrow> file_stats \<Rightarrow> run_metadata" where
  "add_stats m stats =
     \<lparr>total_records = total_records m + records stats,
      year_distribution = add_year_counts (years stats) (year_distribution m)\<rparr>"

fun reprocess_main :: "(py_error + file_stats) list \<Rightarrow> run_metadata \<Rightarrow> run_metadata" where
  "reprocess_main [] m = m"
| "reprocess_main (Inl e # results) m = reprocess_main results m"
| "reprocess_main (Inr stats # results) m = reprocess_main results (add_stats m stats)"

section \<open>Processing the baseline XML (\<^verbatim>\<open>stages_v2/download_and_process_baseline.py\<close>)\<close>

subsection \<open>ElementTree elements\<close>

text \<open>
  An element has a tag, attributes, the text before its first child, its children and the
  text after its end tag. \<^verbatim>\<open>find\<close> and \<^verbatim>\<open>findall\<close> with a plain tag look at the children;
  with \<^verbatim>\<open>.//tag\<close> they look at all descendants in document order.
\<close>

datatype xml =
  Element (elem_tag: string) (attrib: "(string \<times> string) list")
    (elem_text: "string option") (children: "xml list") (elem_tail: "string option")

definition find_child :: "string \<Rightarrow> xml \<Rightarrow> xml option" where
  "find_child tg e = List.find (\<lambda>c. elem_tag c = tg) (children e)"

definition findall_child :: "string \<Rightarrow> xml \<Rightarrow> xml list" where
  "findall_child tg e = filter (\<lambda>c. elem_tag c = tg) (children e)"

fun descendants :: "xml \<Rightarrow> xml list"
  and descendants_list :: "xml list \<Rightarrow> xml list" where
  "descendants (Element tg a tx cs ta) = descendants_list cs"
| "descendants_list [] = []"
| "descendants_list (c # cs) = c # descendants c @ descendants_list cs"

definition findall_desc :: "string \<Rightarrow> xml \<Rightarrow> xml list" where
  "findall_desc tg e = filter (\<lambda>c. elem_tag c = tg) (descendants e)"

definition find_desc :: "string \<Rightarrow> xml \<Rightarrow> xml option" where
  "find_desc tg e = List.find (\<lambda>c. elem_tag c = tg) (descendants e)"

text \<open>\<^verbatim>\<open>.//a/b\<close>: the children tagged \<open>b\<close> of every descendant tagged \<open>a\<close>.\<close>

definition findall_desc_child :: "string \<Rightarrow> string \<Rightarrow> xml \<Rightarrow> xml list" where
  "findall_desc_child a b e = concat (map (findall_child b) (findall_desc a e))"

definition text_or :: "string \<Rightarrow> string option \<Rightarrow> string" where
  "text_or dflt t = (case t of None \<Rightarrow> dflt | Some s \<Rightarrow> (if s \<noteq> [] then s else dflt))"

definition some_text :: "string option \<Rightarrow> string list" where
  "some_text t = (case t of None \<Rightarrow> [] | Some s \<Rightarrow> (if s \<noteq> [] then [s] else []))"

fun itertext :: "xml \<Rightarrow> string list"
  and itertext_children :: "xml list \<Rightarrow> string list" where
  "itertext (Element tg a tx cs ta) = some_text tx @ itertext_children cs"
| "itertext_children [] = []"
| "itertext_children (c # cs) = itertext c @ some_text (elem_tail c) @ itertext_children cs"

text \<open>\<^verbatim>\<open>findtext\<close> gives \<^verbatim>\<open>None\<close> when there is no such child, and the empty string for a
  child without text.\<close>

definition findtext :: "string \<Rightarrow> xml \<Rightarrow> string option" where
  "findtext tg e =
     (case find_child tg e of
        None \<Rightarrow> None
      | Some c \<Rightarrow> Some (case elem_text c of None \<Rightarrow> [] | Some s \<Rightarrow> s))"

definition attr_get :: "xml \<Rightarrow> string \<Rightarrow> string \<Rightarrow> string" where
  "attr_get e key dflt = (case map_of (attrib e) key of None \<Rightarrow> dflt | Some v \<Rightarrow> v)"

subsection \<open>\<^verbatim>\<open>json.dumps\<close> of the ten extracted fields\<close>

text \<open>With the default \<^verbatim>\<open>ensure_ascii\<close>, everything but the printable ASCII characters is
  escaped.\<close>

definition json_escape_char :: "char \<Rightarrow> string" where
  "json_escape_char c =
     (if c = CHR 0x22 then [CHR 0x5C, CHR 0x22]
      else if c = CHR 0x5C then [CHR 0x5C, CHR 0x5C]
      else if c = CHR 0x0A then [CHR 0x5C, CHR ''n'']
      else if c = CHR 0x0D then [CHR 0x5C, CHR ''r'']
      else if c = CHR 0x09 then [CHR 0x5C, CHR ''t'']
      else if c = CHR 0x08 then [CHR 0x5C, CHR ''b'']
      else if c = CHR 0x0C then [CHR 0x5C, CHR ''f'']
      else if 32 \<le> code_point c \<and> code_point c \<le> 126 then [c]
      else [CHR 0x5C, CHR ''u'', CHR ''0'', CHR ''0''] @ hex2 (code_point c))"

definition json_string :: "string \<Rightarrow> string" where
  "json_string s = [CHR 0x22] @ concat (map json_escape_char s) @ [CHR 0x22]"

definition json_member :: "string \<Rightarrow> string \<Rightarrow> string" where
  "json_member key v = json_string key @ '': '' @ v"

definition json_year :: "int option \<Rightarrow> string" where
  "json_year y = (case y of None \<Rightarrow> ''null'' | Some n \<Rightarrow> dec_of_int n)"

definition json_dumps_fields ::
  "int \<Rightarrow> string \<Rightarrow> string \<Rightarrow> string \<Rightarrow> int option \<Rightarrow> string \<Rightarrow> string \<Rightarrow> string \<Rightarrow> string
     \<Rightarrow> string \<Rightarrow> string" where
  "json_dumps_fields pmid title abstract doi year authors_str journal mesh_str keywords_str
       pub_types_str =
     ''{'' @ join '', ''
       [json_member ''PMID'' (dec_of_int pmid),
        json_member ''Title'' (json_string title),
        json_member ''Abstract'' (json_string abstract),
        json_member ''DOI'' (json_string doi),
        json_member ''Year'' (json_year year),
        json_member ''Authors'' (json_string authors_str),
        json_member ''Journal'' (json_string journal),
        json_member ''MeSH_Terms'' (json_string mesh_str),
        json_member ''Keywords'' (json_string keywords_str),
        json_member ''Pub_Types'' (json_string pub_types_str)] @ ''}''"

subsection \<open>The fields of \<^verbatim>\<open>extract_article_fields\<close>\<close>

text \<open>The identifier: \<^verbatim>\<open>int(pmid_elem.text)\<close> when the element is there with text, else 0.
  The conversion can raise \<^verbatim>\<open>ValueError\<close>.\<close>

definition xml_pmid :: "xml \<Rightarrow> py_error + int" where
  "xml_pmid medline =
     (case find_child ''PMID'' medline of
        None \<Rightarrow> Inr 0
      | Some pmid_elem \<Rightarrow>
          (case elem_text pmid_elem of
             None \<Rightarrow> Inr 0
           | Some s \<Rightarrow> (if s \<noteq> [] then py_int s else Inr 0)))"

definition xml_title :: "xml option \<Rightarrow> string" where
  "xml_title article =
     (case article of
        None \<Rightarrow> []
      | Some a \<Rightarrow>
          (case find_child ''ArticleTitle'' a of
             None \<Rightarrow> []
           | Some title_elem \<Rightarrow> concat (itertext title_elem)))"

definition xml_abstract_part :: "xml \<Rightarrow> string" where
  "xml_abstract_part text_elem =
     (let label = attr_get text_elem ''Label'' [];
          content = concat (itertext text_elem)
      in if label \<noteq> [] then label @ '': '' @ content else content)"

definition xml_abstract :: "xml option \<Rightarrow> string" where
  "xml_abstract article =
     join '' ''
       (case article of
          None \<Rightarrow> []
        | Some a \<Rightarrow>
            (case find_child ''Abstract'' a of
               None \<Rightarrow> []
             | Some abstract_elem \<Rightarrow>
                 map xml_abstract_part (findall_child ''AbstractText'' abstract_elem)))"

text \<open>The DOI: the loop runs over \<^verbatim>\<open>pubmed_data.findall('.//ArticleId')\<close>, every
  \<^verbatim>\<open>ArticleId\<close> below \<^verbatim>\<open>PubmedData\<close> at any depth, and breaks at the first match.\<close>

fun xml_first_doi :: "xml list \<Rightarrow> string" where
  "xml_first_doi [] = []"
| "xml_first_doi (aid # rest) =
     (if map_of (attrib aid) ''IdType'' = Some ''doi'' then text_or [] (elem_text aid)
      else xml_first_doi rest)"

definition xml_doi :: "xml option \<Rightarrow> string" where
  "xml_doi pubmed_data =
     (case pubmed_data of
        None \<Rightarrow> []
      | Some pd \<Rightarrow> xml_first_doi (findall_desc ''ArticleId'' pd))"

text \<open>The year: \<^verbatim>\<open>int(year_elem.text)\<close> with \<^verbatim>\<open>ValueError\<close> ignored, and the fallback under
  \<^verbatim>\<open>if year is None\<close>: the match of \<^verbatim>\<open>(\d{4})\<close> at the start of the \<^verbatim>\<open>MedlineDate\<close> text.\<close>

definition xml_explicit_year :: "xml \<Rightarrow> int option" where
  "xml_explicit_year pub_date =
     (case find_child ''Year'' pub_date of
        None \<Rightarrow> None
      | Some year_elem \<Rightarrow>
          (case elem_text year_elem of
             None \<Rightarrow> None
           | Some s \<Rightarrow>
               (if s \<noteq> [] then (case py_int s of Inr y \<Rightarrow> Some y | Inl e \<Rightarrow> None)
                else None)))"

definition match_4digits :: "string \<Rightarrow> string option" where
  "match_4digits s =
     (if 4 \<le> length s \<and> list_all is_decimal_char (take 4 s) then Some (take 4 s) else None)"

definition xml_medline_year :: "xml \<Rightarrow> int option" where
  "xml_medline_year pub_date =
     (case find_child ''MedlineDate'' pub_date of
        None \<Rightarrow> None
      | Some medline_date \<Rightarrow>
          (case elem_text medline_date of
             None \<Rightarrow> None
           | Some s \<Rightarrow>
               (if s \<noteq> [] then
                  (case match_4digits s of
                     None \<Rightarrow> None
                   | Some g \<Rightarrow> Some (int (decimal_value g)))
                else None)))"

definition xml_year :: "xml option \<Rightarrow> int option" where
  "xml_year article =
     (case article of
        None \<Rightarrow> None
      | Some a \<Rightarrow>
          (case find_desc ''PubDate'' a of
             None \<Rightarrow> None
           | Some pub_date \<Rightarrow>
               (let year = xml_explicit_year pub_date
                in if year = None then xml_medline_year pub_date else year)))"

definition xml_author :: "xml \<Rightarrow> string list" where
  "xml_author author =
     (let last = text_or [] (findtext ''LastName'' author);
          first = text_or [] (findtext ''ForeName'' author)
      in if last \<noteq> [] then [py_strip '', '' (last @ '', '' @ first)] else [])"

definition xml_authors :: "xml option \<Rightarrow> string" where
  "xml_authors article =
     join ''; ''
       (case article of
          None \<Rightarrow> []
        | Some a \<Rightarrow> concat (map xml_author (findall_desc ''Author'' a)))"

definition xml_journal :: "xml option \<Rightarrow> string" where
  "xml_journal article =
     (case article of
        None \<Rightarrow> []
      | Some a \<Rightarrow>
          (case findall_desc_child ''Journal'' ''Title'' a of
             [] \<Rightarrow> []
           | journal_elem # others \<Rightarrow> text_or [] (elem_text journal_elem)))"

definition texts_of :: "xml list \<Rightarrow> string list" where
  "texts_of es = concat (map (\<lambda>e. some_text (elem_text e)) es)"

definition xml_date :: "xml option \<Rightarrow> string" where
  "xml_date dc =
     (case dc of
        None \<Rightarrow> []
      | Some d \<Rightarrow>
          (let y = text_or [] (findtext ''Year'' d);
               m = text_or ''01'' (findtext ''Month'' d);
               dd = text_or ''01'' (findtext ''Day'' d)
           in if y \<noteq> [] then y @ ''-'' @ m @ ''-'' @ dd else []))"

subsection \<open>\<^verbatim>\<open>extract_article_fields\<close>\<close>

text \<open>
  The function returns \<^verbatim>\<open>None\<close> when there is no \<^verbatim>\<open>MedlineCitation\<close> and when anything in
  its body raises (the handler for \<^verbatim>\<open>Exception\<close> prints and returns \<^verbatim>\<open>None\<close>); the only
  call in the body that can raise is the conversion of the identifier.
\<close>

definition extract_article_fields :: "xml \<Rightarrow> flat_row option" where
  "extract_article_fields article_elem =
     (case find_child ''MedlineCitation'' article_elem of
        None \<Rightarrow> None
      | Some medline \<Rightarrow>
          (let pubmed_data = find_child ''PubmedData'' article_elem;
               article = find_child ''Article'' medline
           in case xml_pmid medline of
                Inl e \<Rightarrow> None
              | Inr pmid \<Rightarrow>
                  (let title = xml_title article;
                       abstract = xml_abstract article;
                       doi = xml_doi pubmed_data;
                       year = xml_year article;
                       authors_str = xml_authors article;
                       journal = xml_journal article;
                       mesh_str =
                         join ''; ''
                           (texts_of (findall_desc_child ''MeshHeading'' ''DescriptorName'' medline));
                       keywords_str = join ''; '' (texts_of (findall_desc ''Keyword'' medline));
                       pub_types_str =
                         join ''; ''
                           (case article of
                              None \<Rightarrow> []
                            | Some a \<Rightarrow> texts_of (findall_desc ''PublicationType'' a));
                       json_str =
                         json_dumps_fields pmid title abstract doi year authors_str journal
                           mesh_str keywords_str pub_types_str
                   in Some \<lparr>PMID = pmid, Title = PStr title, Abstract = abstract,
                            DOI = PStr doi, Year = year, Authors = authors_str,
                            Journal = PStr journal, MeSH_Terms = mesh_str,
                            Keywords = keywords_str, Pub_Types = pub_types_str,
                            Date_Created = xml_date (find_child ''DateCreated'' medline),
                            Date_Revised = xml_date (find_child ''DateRevised'' medline),
                            JSON = json_str\<rparr>)))"

subsection \<open>\<^verbatim>\<open>process_xml_file\<close>\<close>

text \<open>
  The file is read as the sequence of elements whose end tag \<^verbatim>\<open>iterparse\<close> reports;
  \<open>readable\<close> is false when opening or parsing the file raises at some point. In that
  case the handler returns the error record, whatever had been collected, and nothing is
  written.
\<close>

record xml_input =
  xml_gz_path :: string
  events :: "xml list"
  readable :: bool

datatype task_result =
    Stats file_stats
  | ErrorStats string

fun collect_records :: "xml list \<Rightarrow> buckets \<Rightarrow> nat \<Rightarrow> buckets \<times> nat" where
  "collect_records [] records_by_year total_count = (records_by_year, total_count)"
| "collect_records (elem # rest) records_by_year total_count =
     (if elem_tag elem = ''PubmedArticle'' then
        (case extract_article_fields elem of
           None \<Rightarrow> collect_records rest records_by_year total_count
         | Some record \<Rightarrow> collect_records rest (route records_by_year record) (total_count + 1))
      else collect_records rest records_by_year total_count)"

definition process_xml_file ::
  "(string \<Rightarrow> string) \<Rightarrow> writer \<Rightarrow> xml_input \<Rightarrow> store \<Rightarrow> store \<times> (py_error + task_result)" where
  "process_xml_file out_name wr inp st =
     (if \<not> readable inp then (st, Inr (ErrorStats (xml_gz_path inp)))
      else
        (case collect_records (events inp) [] 0 of
           (records_by_year, total_count) \<Rightarrow>
             (case write_partitions wr (out_name (xml_gz_path inp)) records_by_year st [] of
                (st', Inl e) \<Rightarrow> (st', Inl e)
              | (st', Inr ys) \<Rightarrow>
                  (st', Inr (Stats \<lparr>input_file = xml_gz_path inp,
                                    records = total_count, years = ys\<rparr>)))))"

text \<open>\<^verbatim>\<open>main\<close>: a result carrying \<^verbatim>\<open>error\<close> and a task that raised add nothing.\<close>

fun baseline_main :: "(py_error + task_result) list \<Rightarrow> run_metadata \<Rightarrow> run_metadata" where
  "baseline_main [] m = m"
| "baseline_main (Inl e # results) m = baseline_main results m"
| "baseline_main (Inr (ErrorStats msg) # results) m = baseline_main results m"
| "baseline_main (Inr (Stats stats) # results) m = baseline_main results (add_stats m stats)"

section \<open>Notions used in the statements, and example records\<close>

text \<open>The row with only an identifier and a blob: every text column empty, no year.\<close>

definition empty_row :: "int \<Rightarrow> string \<Rightarrow> flat_row" where
  "empty_row n blob =
     \<lparr>PMID = n, Title = PStr [], Abstract = [], DOI = PStr [], Year = None,
      Authors = [], Journal = PStr [], MeSH_Terms = [], Keywords = [], Pub_Types = [],
      Date_Created = [], Date_Revised = [], JSON = blob\<rparr>"

text \<open>The number of rows held by all buckets, and the sum of the counts of a dict.\<close>

definition bucket_rows :: "buckets \<Rightarrow> nat" where
  "bucket_rows bs = sum_list (map (\<lambda>b. length (snd b)) bs)"

definition count_sum :: "(int \<times> nat) list \<Rightarrow> nat" where
  "count_sum d = sum_list (map snd d)"

definition no_metadata :: run_metadata where
  "no_metadata = \<lparr>total_records = 0, year_distribution = []\<rparr>"

text \<open>
  A record whose \<^verbatim>\<open>PubDate\<close> carries the year \<^verbatim>\<open>0\<close> and a \<^verbatim>\<open>MedlineDate\<close>: as the blob
  that \<^verbatim>\<open>stages/process.py\<close> stores, as its decoded value, and as the XML element.
\<close>

definition year_zero_blob :: string where
  \<open>year_zero_blob = ''{"MedlineCitation": {"PMID": {"#text": "1"}, "Article": {"Journal": {"JournalIssue": {"PubDate": {"Year": "0", "MedlineDate": "1998 Jan-Feb"}}}}}}''\<close>

definition year_zero_data :: pyval where
  "year_zero_data =
     PDict [(''MedlineCitation'',
       PDict [(''PMID'', PDict [(''#text'', PStr ''1'')]),
              (''Article'',
                PDict [(''Journal'',
                  PDict [(''JournalIssue'',
                    PDict [(''PubDate'',
                      PDict [(''Year'', PStr ''0''),
                             (''MedlineDate'', PStr ''1998 Jan-Feb'')])])])])])]"

definition year_zero_elem :: xml where
  "year_zero_elem =
     Element ''PubmedArticle'' [] None
       [Element ''MedlineCitation'' [] None
          [Element ''PMID'' [] (Some ''1'') [] None,
           Element ''Article'' [] None
             [Element ''Journal'' [] None
                [Element ''JournalIssue'' [] None
                   [Element ''PubDate'' [] None
                      [Element ''Year'' [] (Some ''0'') [] None,
                       Element ''MedlineDate'' [] (Some ''1998 Jan-Feb'') [] None]
                      None] None] None] None] None] None"

text \<open>
  A record without a DOI of its own that cites a reference with one: the identifier list of
  the record holds its PubMed id, the identifier list of the reference holds a DOI.
\<close>

definition cited_doi_blob :: string where
  \<open>cited_doi_blob = ''{"MedlineCitation": {"PMID": {"#text": "2"}}, "PubmedData": {"ArticleIdList": {"ArticleId": {"@IdType": "pubmed", "#text": "2"}}, "ReferenceList": {"Reference": {"ArticleIdList": {"ArticleId": {"@IdType": "doi", "#text": "10.1000/cited"}}}}}}''\<close>

definition cited_doi_data :: pyval where
  "cited_doi_data =
     PDict [(''MedlineCitation'', PDict [(''PMID'', PDict [(''#text'', PStr ''2'')])]),
            (''PubmedData'',
              PDict [(''ArticleIdList'',
                       PDict [(''ArticleId'',
                         PDict [(''@IdType'', PStr ''pubmed''), (''#text'', PStr ''2'')])]),
                     (''ReferenceList'',
                       PDict [(''Reference'',
                         PDict [(''ArticleIdList'',
                           PDict [(''ArticleId'',
                             PDict [(''@IdType'', PStr ''doi''),
                                    (''#text'', PStr ''10.1000/cited'')])])])])])]"

definition cited_doi_elem :: xml where
  "cited_doi_elem =
     Element ''PubmedArticle'' [] None
       [Element ''MedlineCitation'' [] None
          [Element ''PMID'' [] (Some ''2'') [] None] None,
        Element ''PubmedData'' [] None
          [Element ''ArticleIdList'' [] None
             [Element ''ArticleId'' [(''IdType'', ''pubmed'')] (Some ''2'') [] None] None,
           Element ''ReferenceList'' [] None
             [Element ''Reference'' [] None
                [Element ''ArticleIdList'' [] None
                   [Element ''ArticleId'' [(''IdType'', ''doi'')] (Some ''10.1000/cited'') []
                      None] None] None] None] None] None"

text \<open>A decoder that agrees with \<^verbatim>\<open>json.loads\<close> on the blobs used below: two records,
  the empty object, the empty array, and text that is not JSON.\<close>

definition loads_example :: "string \<Rightarrow> py_error + pyval" where
  "loads_example s =
     (if s = ''{}'' then Inr (PDict [])
      else if s = ''[]'' then Inr (PList [])
      else if s = year_zero_blob then Inr year_zero_data
      else if s = cited_doi_blob then Inr cited_doi_data
      else Inl JSONDecodeError)"

text \<open>XML records: without a citation, with an identifier that is not a number, with a
  negative identifier, and two records that differ only in what is not extracted.\<close>

definition no_citation_elem :: xml where
  "no_citation_elem = Element ''PubmedArticle'' [] None [] None"

definition bad_pmid_elem :: xml where
  "bad_pmid_elem =
     Element ''PubmedArticle'' [] None
       [Element ''MedlineCitation'' [] None
          [Element ''PMID'' [] (Some ''abc'') [] None] None] None"

definition negative_pmid_elem :: xml where
  "negative_pmid_elem =
     Element ''PubmedArticle'' [] None
       [Element ''MedlineCitation'' [] None
          [Element ''PMID'' [] (Some ''-5'') [] None] None] None"

definition plain_elem :: xml where
  "plain_elem =
     Element ''PubmedArticle'' [] None
       [Element ''MedlineCitation'' [] None
          [Element ''PMID'' [] (Some ''7'') [] None] None] None"

definition revised_elem :: xml where
  "revised_elem =
     Element ''PubmedArticle'' [] None
       [Element ''MedlineCitation'' [(''Status'', ''MEDLINE'')] None
          [Element ''PMID'' [] (Some ''7'') [] None,
           Element ''DateRevised'' [] None
             [Element ''Year'' [] (Some ''2019'') [] None] None] None] None"

text \<open>
  The source records of an XML file are the \<^verbatim>\<open>PubmedArticle\<close> elements that the decoder
  supplies. A record is dropped when the extractor returns nothing for it, and accepted
  when the extractor returns a row.
\<close>

definition pubmed_articles :: "xml_input \<Rightarrow> nat" where
  "pubmed_articles inp = length (filter (\<lambda>e. elem_tag e = ''PubmedArticle'') (events inp))"

definition dropped_articles :: "xml_input \<Rightarrow> nat" where
  "dropped_articles inp =
     length (filter (\<lambda>e. elem_tag e = ''PubmedArticle'' \<and> extract_article_fields e = None)
       (events inp))"

definition accepted :: "xml \<Rightarrow> bool" where
  "accepted e = (elem_tag e = ''PubmedArticle'' \<and> extract_article_fields e \<noteq> None)"

text \<open>The partitions a task writes are collected as a store of their own: the bucket of
  each key, up to the first write that fails.\<close>

fun partitions_written :: "writer \<Rightarrow> string \<Rightarrow> buckets \<Rightarrow> store" where
  "partitions_written wr name [] = Map.empty"
| "partitions_written wr name ((year, rs) # rest) =
     (if wr year name rs then [(year, name) \<mapsto> rs] ++ partitions_written wr name rest
      else Map.empty)"

definition parquet_partitions ::
  "(string \<Rightarrow> string) \<Rightarrow> (string \<Rightarrow> py_error + pyval) \<Rightarrow> writer \<Rightarrow> parquet_input \<Rightarrow> store" where
  "parquet_partitions out_name loads wr inp =
     (case extract_all loads (table_rows inp) [] of
        Inl e \<Rightarrow> Map.empty
      | Inr bs \<Rightarrow> partitions_written wr (out_name (input_path inp)) bs)"

definition xml_partitions :: "(string \<Rightarrow> string) \<Rightarrow> writer \<Rightarrow> xml_input \<Rightarrow> store" where
  "xml_partitions out_name wr inp =
     (if readable inp
      then partitions_written wr (out_name (xml_gz_path inp))
             (fst (collect_records (events inp) [] 0))
      else Map.empty)"

text \<open>
  What a task contributes to the run: its record count and the sum of its per-year counts,
  both 0 when the task raised or returned the error record. For a task that returned
  statistics, the number of source records that the decoder supplied (the rows of the
  table, the \<^verbatim>\<open>PubmedArticle\<close> elements of the XML file) and the number of XML records that
  were dropped.
\<close>

definition stats_records :: "py_error + file_stats \<Rightarrow> nat" where
  "stats_records r = (case r of Inl e \<Rightarrow> 0 | Inr stats \<Rightarrow> records stats)"

definition stats_counts :: "py_error + file_stats \<Rightarrow> nat" where
  "stats_counts r = (case r of Inl e \<Rightarrow> 0 | Inr stats \<Rightarrow> count_sum (years stats))"

definition task_stats :: "py_error + task_result \<Rightarrow> py_error + file_stats" where
  "task_stats r =
     (case r of
        Inl e \<Rightarrow> Inl e
      | Inr (ErrorStats msg) \<Rightarrow> Inl OtherError
      | Inr (Stats stats) \<Rightarrow> Inr stats)"

definition parquet_decoded :: "(string \<Rightarrow> string) \<Rightarrow> (string \<Rightarrow> py_error + pyval) \<Rightarrow> writer
    \<Rightarrow> parquet_input \<times> store \<Rightarrow> nat" where
  "parquet_decoded out_name loads wr task =
     (case snd (process_parquet_file out_name loads wr (fst task) (snd task)) of
        Inl e \<Rightarrow> 0
      | Inr stats \<Rightarrow> length (table_rows (fst task)))"

definition xml_decoded :: "(string \<Rightarrow> string) \<Rightarrow> writer \<Rightarrow> xml_input \<times> store \<Rightarrow> nat" where
  "xml_decoded out_name wr task =
     (case task_stats (snd (process_xml_file out_name wr (fst task) (snd task))) of
        Inl e \<Rightarrow> 0
      | Inr stats \<Rightarrow> pubmed_articles (fst task))"

definition xml_dropped :: "(string \<Rightarrow> string) \<Rightarrow> writer \<Rightarrow> xml_input \<times> store \<Rightarrow> nat" where
  "xml_dropped out_name wr task =
     (case task_stats (snd (process_xml_file out_name wr (fst task) (snd task))) of
        Inl e \<Rightarrow> 0
      | Inr stats \<Rightarrow> dropped_articles (fst task))"

text \<open>
  Example tasks: a table of three rows (the empty object, the record with the year 0, and a
  blob that is not JSON), a table of two rows (a blob that is not JSON, then the empty
  array), and an XML file with three \<^verbatim>\<open>PubmedArticle\<close> elements of which one has no
  citation. One writer succeeds on every partition and one fails on every partition, and
  the output names are those of the three input paths: \<^verbatim>\<open>pubmed25n0001.parquet\<close> for the
  first table and for the XML file, \<^verbatim>\<open>pubmed25n0002.parquet\<close> for the second table.
\<close>

definition example_out_name :: "string \<Rightarrow> string" where
  "example_out_name p =
     (if p = ''brick/pubmed.parquet/pubmed25n0002.parquet'' then ''pubmed25n0002.parquet''
      else ''pubmed25n0001.parquet'')"

definition example_writer :: writer where
  "example_writer year name rs = True"

definition failing_writer :: writer where
  "failing_writer year name rs = False"

definition example_parquet :: parquet_input where
  "example_parquet =
     \<lparr>input_path = ''brick/pubmed.parquet/pubmed25n0001.parquet'',
      table_rows = [(PStr ''5'', ''{}''), (PStr ''1'', year_zero_blob), (PStr ''6'', ''not json'')]\<rparr>"

definition example_xml :: xml_input where
  "example_xml =
     \<lparr>xml_gz_path = ''download/baseline/pubmed25n0001.xml.gz'',
      events = [plain_elem, no_citation_elem, cited_doi_elem],
      readable = True\<rparr>"

definition example_bad_parquet :: parquet_input where
  "example_bad_parquet =
     \<lparr>input_path = ''brick/pubmed.parquet/pubmed25n0002.parquet'',
      table_rows = [(PStr ''6'', ''not json''), (PStr ''9'', ''[]'')]\<rparr>"

section \<open>Basic facts\<close>

lemma bind_err_Inl [simp]: "bind_err (Inl e) f = Inl e"
  by (simp add: bind_err_def)

lemma bind_err_Inr [simp]: "bind_err (Inr v) f = f v"
  by (simp add: bind_err_def)

lemma bind_err_eq_Inr: "bind_err m f = Inr r \<longleftrightarrow> (\<exists>v. m = Inr v \<and> f v = Inr r)"
  by (cases m) simp_all

subsection \<open>\<^verbatim>\<open>int()\<close> on a string of ASCII digits\<close>

lemma decimal_not_space: "is_decimal_char c \<Longrightarrow> \<not> is_int_space c"
  by (auto simp: is_decimal_char_def is_int_space_def)

lemma decimal_not_sign:
  "is_decimal_char c \<Longrightarrow> c \<noteq> CHR ''-'' \<and> c \<noteq> CHR ''+'' \<and> c \<noteq> CHR ''_''"
  by (auto simp: is_decimal_char_def code_point_def)

lemma digits_ok_decimal: "xs \<noteq> [] \<Longrightarrow> list_all is_decimal_char xs \<Longrightarrow> digits_ok xs"
  by (induction xs rule: digits_ok.induct) (auto dest: decimal_not_sign)

lemma filter_underscore_decimal:
  "list_all is_decimal_char xs \<Longrightarrow> filter (\<lambda>c. c \<noteq> CHR ''_'') xs = xs"
  by (induction xs) (auto dest: decimal_not_sign)

lemma dropWhile_space_decimal:
  assumes "isdecimal s"
  shows "dropWhile is_int_space (rev (dropWhile is_int_space (rev s))) = s"
proof -
  from assms have ne: "s \<noteq> []" and all: "list_all is_decimal_char s"
    by (simp_all add: isdecimal_def)
  have l: "\<not> is_int_space (last s)"
    using ne all decimal_not_space [of "last s"] by (simp add: list_all_iff)
  have h: "\<not> is_int_space (hd s)"
    using ne all decimal_not_space [of "hd s"] by (simp add: list_all_iff)
  have "dropWhile is_int_space (rev s) = rev s"
    using ne l by (cases s rule: rev_cases) auto
  then show ?thesis
    using ne h by (cases s) auto
qed

lemma py_int_decimal_cases:
  assumes "isdecimal s"
  shows "py_int s =
           (if length s \<le> max_str_digits then Inr (int (decimal_value s)) else Inl ValueError)"
proof -
  from assms obtain c r where s: "s = c # r" and c: "is_decimal_char c"
    and all: "list_all is_decimal_char s"
    by (cases s) (auto simp: isdecimal_def)
  have body: "int_body s =
      (if length s \<le> max_str_digits then Inr (int (decimal_value s)) else Inl ValueError)"
    using assms all
    by (simp add: int_body_def digits_ok_decimal filter_underscore_decimal isdecimal_def
        Let_def not_less)
  show ?thesis
    using dropWhile_space_decimal [OF assms] decimal_not_sign [OF c] body
    by (simp add: py_int_def s)
qed

lemma py_int_decimal:
  "isdecimal s \<Longrightarrow> length s \<le> max_str_digits \<Longrightarrow> py_int s = Inr (int (decimal_value s))"
  by (simp add: py_int_decimal_cases)

lemma py_int_too_long:
  "isdecimal s \<Longrightarrow> max_str_digits < length s \<Longrightarrow> py_int s = Inl ValueError"
  by (simp add: py_int_decimal_cases)

lemma isdecimal_isdigit: "isdecimal s \<Longrightarrow> isdigit s"
  by (auto simp: isdecimal_def isdigit_def is_digit_char_def list_all_iff)

subsection \<open>What a produced row holds\<close>

lemma degraded_row_JSON: "degraded_row pmid json_str = Inr row \<Longrightarrow> JSON row = json_str"
  by (auto simp: degraded_row_def bind_err_eq_Inr)

lemma extract_decoded_JSON:
  "extract_decoded data pmid json_str = Inr row \<Longrightarrow> JSON row = json_str"
  by (auto simp: extract_decoded_def bind_err_eq_Inr)

lemma xml_row_JSON:
  "extract_article_fields e = Some row \<Longrightarrow>
   JSON row = json_dumps_fields (PMID row) (py_str (Title row)) (Abstract row)
      (py_str (DOI row)) (Year row) (Authors row) (py_str (Journal row)) (MeSH_Terms row)
      (Keywords row) (Pub_Types row)"
  by (auto simp: extract_article_fields_def Let_def py_str_def split: option.splits sum.splits)

lemma degraded_row_value:
  "(isdecimal pmid \<and> length pmid \<le> max_str_digits) \<or> \<not> isdigit pmid \<Longrightarrow>
   degraded_row pmid json_str =
     Inr (empty_row (if isdecimal pmid then int (decimal_value pmid) else 0) json_str)"
  by (auto simp: degraded_row_def empty_row_def py_int_decimal isdecimal_isdigit)

lemma xml_none_iff:
  "extract_article_fields e = None \<longleftrightarrow>
     (case find_child ''MedlineCitation'' e of
        None \<Rightarrow> True
      | Some m \<Rightarrow> (\<exists>err. xml_pmid m = Inl err))"
  by (auto simp: extract_article_fields_def Let_def split: option.splits sum.splits)


lemma extract_decoded_pmid:
  "extract_decoded (PDict kvs) pmid json_str = Inr row \<Longrightarrow>
   get_pmid (dict_get kvs ''MedlineCitation'' (PDict [])) pmid = Inr (PMID row)"
  by (auto simp: extract_decoded_def bind_err_eq_Inr py_get_def)

lemma extract_decoded_dict:
  "extract_decoded data pmid json_str = Inr row \<Longrightarrow> \<exists>kvs. data = PDict kvs"
  by (cases data) (auto simp: extract_decoded_def py_get_def)



section \<open>The raw blob column\<close>

text \<open>
  C1 (as amended). In the blob path the \<^verbatim>\<open>JSON\<close> column of every row that
  \<^verbatim>\<open>extract_fields\<close> returns, degraded or not, is the input blob, character for character.
  In the XML path the \<^verbatim>\<open>JSON\<close> column is not the source record: it is \<^verbatim>\<open>json.dumps\<close> of the
  ten extracted fields from \<^verbatim>\<open>PMID\<close> to \<^verbatim>\<open>Pub_Types\<close>.
\<close>

theorem raw_blob_passthrough:
  "(extract_fields loads pmid json_str = Inr row \<longrightarrow> JSON row = json_str) \<and>
   (extract_article_fields e = Some row' \<longrightarrow>
      JSON row' = json_dumps_fields (PMID row') (py_str (Title row')) (Abstract row')
        (py_str (DOI row')) (Year row') (Authors row') (py_str (Journal row'))
        (MeSH_Terms row') (Keywords row') (Pub_Types row'))"
proof (intro conjI impI)
  assume a: "extract_fields loads pmid json_str = Inr row"
  show "JSON row = json_str"
  proof (cases "loads json_str")
    case (Inl err)
    with a show ?thesis
      by (auto simp: extract_fields_def dest: degraded_row_JSON split: if_splits)
  next
    case (Inr data)
    with a show ?thesis
      by (auto simp: extract_fields_def dest: extract_decoded_JSON)
  qed
next
  assume "extract_article_fields e = Some row'"
  then show "JSON row' = json_dumps_fields (PMID row') (py_str (Title row')) (Abstract row')
        (py_str (DOI row')) (Year row') (Authors row') (py_str (Journal row'))
        (MeSH_Terms row') (Keywords row') (Pub_Types row')"
    by (rule xml_row_JSON)
qed

text \<open>An undecodable blob comes back as it went in, and the XML record with the
  identifier 7 gets the serialisation of its ten fields.\<close>

theorem raw_blob_passthrough_witness:
  \<open>extract_fields loads_example ''12a'' ''not json'' = Inr (empty_row 0 ''not json'')
   \<and> JSON (empty_row 0 ''not json'') = ''not json''
   \<and> map_option JSON (extract_article_fields plain_elem) =
       Some ''{"PMID": 7, "Title": "", "Abstract": "", "DOI": "", "Year": null, "Authors": "", "Journal": "", "MeSH_Terms": "", "Keywords": "", "Pub_Types": ""}''\<close>
proof -
  have a: "extract_fields loads_example ''12a'' ''not json'' = Inr (empty_row 0 ''not json'')"
    by code_simp
  have "extract_article_fields plain_elem \<noteq> None"
    by code_simp
  then obtain r where b: "extract_article_fields plain_elem = Some r"
    by auto
  have c: \<open>map_option JSON (extract_article_fields plain_elem) =
       Some ''{"PMID": 7, "Title": "", "Abstract": "", "DOI": "", "Year": null, "Authors": "", "Journal": "", "MeSH_Terms": "", "Keywords": "", "Pub_Types": ""}''\<close>
    by code_simp
  from raw_blob_passthrough [of loads_example "''12a''" "''not json''"
      "empty_row 0 ''not json''" plain_elem r] a b c
  show ?thesis by simp
qed

text \<open>
  The claim as stated fails in the XML path: two different source records, one with a
  status attribute and a revision date and one without, get the same \<^verbatim>\<open>JSON\<close> column, so
  the column cannot be the serialised record of both.
\<close>

theorem raw_blob_not_verbatim_counterexample:
  \<open>map_option JSON (extract_article_fields revised_elem) =
       Some ''{"PMID": 7, "Title": "", "Abstract": "", "DOI": "", "Year": null, "Authors": "", "Journal": "", "MeSH_Terms": "", "Keywords": "", "Pub_Types": ""}''
   \<and> map_option JSON (extract_article_fields revised_elem) =
       map_option JSON (extract_article_fields plain_elem)
   \<and> revised_elem \<noteq> plain_elem\<close>
  by code_simp

section \<open>Records that cannot be extracted\<close>

text \<open>
  C2 (as amended). In the blob path, when \<^verbatim>\<open>json.loads\<close> raises \<^verbatim>\<open>JSONDecodeError\<close> and the
  row's own PMID string is a string of at most 4300 ASCII digits or is not a digit string
  (\<^verbatim>\<open>str.isdigit\<close> is false), the extractor returns one degraded row: the identifier is the
  value of that string in the first case and 0 in the second, every text column is empty,
  the year is null and the blob is kept verbatim. In the XML path the extractor returns
  nothing exactly when the record has no \<^verbatim>\<open>MedlineCitation\<close> or the conversion of its PMID
  text raises, and \<^verbatim>\<open>process_xml_file\<close> skips such a record.
\<close>

theorem degraded_row_on_decode_failure:
  "(loads json_str = Inl JSONDecodeError
      \<and> ((isdecimal pmid \<and> length pmid \<le> max_str_digits) \<or> \<not> isdigit pmid) \<longrightarrow>
      extract_fields loads pmid json_str =
        Inr (empty_row (if isdecimal pmid then int (decimal_value pmid) else 0) json_str))
   \<and> (extract_article_fields e = None \<longleftrightarrow>
        (case find_child ''MedlineCitation'' e of
           None \<Rightarrow> True
         | Some m \<Rightarrow> (\<exists>err. xml_pmid m = Inl err)))
   \<and> (elem_tag e = ''PubmedArticle'' \<and> extract_article_fields e = None \<longrightarrow>
        collect_records (e # rest) bs n = collect_records rest bs n)"
proof (intro conjI impI)
  assume "loads json_str = Inl JSONDecodeError
      \<and> ((isdecimal pmid \<and> length pmid \<le> max_str_digits) \<or> \<not> isdigit pmid)"
  then show "extract_fields loads pmid json_str =
        Inr (empty_row (if isdecimal pmid then int (decimal_value pmid) else 0) json_str)"
    using degraded_row_value [of pmid json_str] by (simp add: extract_fields_def)
next
  show "extract_article_fields e = None \<longleftrightarrow>
        (case find_child ''MedlineCitation'' e of
           None \<Rightarrow> True
         | Some m \<Rightarrow> (\<exists>err. xml_pmid m = Inl err))"
    by (rule xml_none_iff)
next
  assume "elem_tag e = ''PubmedArticle'' \<and> extract_article_fields e = None"
  then show "collect_records (e # rest) bs n = collect_records rest bs n"
    by simp
qed

text \<open>A row with the identifier string 123 and a blob that is not JSON; an XML record
  whose PMID reads \<^verbatim>\<open>abc\<close>.\<close>

theorem degraded_row_on_decode_failure_witness:
  "extract_fields loads_example ''123'' ''not json'' = Inr (empty_row 123 ''not json'')
   \<and> extract_article_fields bad_pmid_elem = None
   \<and> collect_records [bad_pmid_elem] [] 0 = ([], 0)"
proof -
  let ?m = "Element ''MedlineCitation'' [] None [Element ''PMID'' [] (Some ''abc'') [] None] None"
  have a: "loads_example ''not json'' = Inl JSONDecodeError"
    by code_simp
  have b: "isdecimal ''123''"
    by code_simp
  have c: "decimal_value ''123'' = 123" "length ''123'' \<le> max_str_digits"
    by code_simp+
  have d: "find_child ''MedlineCitation'' bad_pmid_elem = Some ?m"
    by code_simp
  have e: "xml_pmid ?m = Inl ValueError"
    by code_simp
  have f: "elem_tag bad_pmid_elem = ''PubmedArticle''"
    by code_simp
  from degraded_row_on_decode_failure [of loads_example "''not json''" "''123''" bad_pmid_elem
      "[]" "[]" 0] a b c d e f
  show ?thesis by simp
qed

lemma handler_raises_too_long:
  "extract_fields loads_example (replicate 4301 (CHR ''1'')) ''not json'' = Inl ValueError"
proof -
  have dec: "isdecimal (replicate 4301 (CHR ''1''))"
    by (simp add: isdecimal_def list_all_iff is_decimal_char_def code_point_def)
  have "py_int (replicate 4301 (CHR ''1'')) = Inl ValueError"
    by (rule py_int_too_long [OF dec]) (simp add: max_str_digits_def)
  moreover have "loads_example ''not json'' = Inl JSONDecodeError"
    by code_simp
  ultimately show ?thesis
    using isdecimal_isdigit [OF dec] by (simp add: extract_fields_def degraded_row_def)
qed

text \<open>
  The claim as stated fails. The XML extractor returns nothing for a record without a
  \<^verbatim>\<open>MedlineCitation\<close> and for one whose PMID is not a number, and the record is then left
  out of every bucket and of the count. In the blob path \<^verbatim>\<open>extract_fields\<close> raises for a blob
  that decodes to something other than an object, and the handler of the decode failure
  raises itself when the row's own PMID string passes \<^verbatim>\<open>str.isdigit\<close> and \<^verbatim>\<open>int()\<close> rejects
  it: the superscript two, and a string of 4301 digits.
\<close>

theorem record_dropped_counterexample:
  "extract_article_fields no_citation_elem = None
   \<and> collect_records [no_citation_elem] [] 0 = ([], 0)
   \<and> extract_article_fields bad_pmid_elem = None
   \<and> extract_fields loads_example ''123'' ''[]'' = Inl AttributeError
   \<and> extract_fields loads_example [CHR 0xB2] ''not json'' = Inl ValueError
   \<and> extract_fields loads_example (replicate 4301 (CHR ''1'')) ''not json'' = Inl ValueError"
proof -
  have "extract_article_fields no_citation_elem = None
   \<and> collect_records [no_citation_elem] [] 0 = ([], 0)
   \<and> extract_article_fields bad_pmid_elem = None
   \<and> extract_fields loads_example ''123'' ''[]'' = Inl AttributeError
   \<and> extract_fields loads_example [CHR 0xB2] ''not json'' = Inl ValueError"
    by code_simp
  then show ?thesis
    using handler_raises_too_long by simp
qed

section \<open>The identifier\<close>




section \<open>The year\<close>

text \<open>
  Where the explicit year wins: in the XML path whenever it parses, in the blob path
  whenever it is a digit string with a value other than 0. The record of the specification
  without a \<^verbatim>\<open>Year\<close> and with the date \<^verbatim>\<open>1998 Jan-Feb\<close> gets the year 1998 in both paths.
\<close>

lemma xml_explicit_year_wins:
  "find_desc ''PubDate'' a = Some pd \<Longrightarrow> xml_explicit_year pd = Some y \<Longrightarrow>
   xml_year (Some a) = Some y"
  by (simp add: xml_year_def)

lemma blob_explicit_year_wins:
  "safe_get article [''Journal'', ''JournalIssue'', ''PubDate''] = PDict pub_date \<Longrightarrow>
   explicit_year pub_date = Inr (Some y) \<Longrightarrow> y \<noteq> 0 \<Longrightarrow> get_year article = Inr (Some y)"
  by (simp add: get_year_def not_year_def)

lemma medline_date_scenario:
  "get_year (PDict [(''Journal'', PDict [(''JournalIssue'',
       PDict [(''PubDate'', PDict [(''MedlineDate'', PStr ''1998 Jan-Feb'')])])])])
     = Inr (Some 1998)
   \<and> xml_year (Some (Element ''Article'' [] None
        [Element ''Journal'' [] None
           [Element ''JournalIssue'' [] None
              [Element ''PubDate'' [] None
                 [Element ''MedlineDate'' [] (Some ''1998 Jan-Feb'') [] None] None] None]
           None] None)) = Some 1998"
  by code_simp

text \<open>
  C4. The claim does not hold for the blob path: the fallback runs under \<^verbatim>\<open>if not year\<close>,
  so an explicit year with the value 0 is overridden by the leading digits of the
  \<^verbatim>\<open>MedlineDate\<close>; the XML path tests \<^verbatim>\<open>year is None\<close> and keeps the explicit year of the
  same record.
\<close>

theorem year_zero_falls_back:
  "loads_example year_zero_blob = Inr year_zero_data
   \<and> explicit_year [(''Year'', PStr ''0''), (''MedlineDate'', PStr ''1998 Jan-Feb'')]
       = Inr (Some 0)
   \<and> map_sum id Year (extract_fields loads_example ''1'' year_zero_blob) = Inr (Some 1998)
   \<and> map_option Year (extract_article_fields year_zero_elem) = Some (Some 0)"
  by code_simp

section \<open>The DOI\<close>

text \<open>Both loops return the text of the first match of the list they run over.\<close>

lemma first_doi_find:
  "first_doi aids = (case List.find is_doi aids of None \<Rightarrow> PStr [] | Some aid \<Rightarrow> id_text aid)"
  by (induction aids) simp_all

lemma xml_first_doi_find:
  "xml_first_doi aids =
     (case List.find (\<lambda>aid. map_of (attrib aid) ''IdType'' = Some ''doi'') aids of
        None \<Rightarrow> []
      | Some aid \<Rightarrow> text_or [] (elem_text aid))"
  by (induction aids) simp_all

text \<open>
  C5. The two paths do not run over the same list: the blob path reads the identifier list
  of the record (\<^verbatim>\<open>PubmedData/ArticleIdList/ArticleId\<close>), the XML path every \<^verbatim>\<open>ArticleId\<close>
  below \<^verbatim>\<open>PubmedData\<close>, the identifier lists of cited references included. A record without
  a DOI of its own that cites a reference with one gets the empty DOI in the blob path and
  the DOI of the reference in the XML path.
\<close>

theorem cited_doi_taken:
  "loads_example cited_doi_blob = Inr cited_doi_data
   \<and> safe_get cited_doi_data [''PubmedData'', ''ArticleIdList'', ''ArticleId'']
       = PDict [(''@IdType'', PStr ''pubmed''), (''#text'', PStr ''2'')]
   \<and> map_sum id DOI (extract_fields loads_example ''2'' cited_doi_blob) = Inr (PStr [])
   \<and> map_option DOI (extract_article_fields cited_doi_elem) = Some (PStr ''10.1000/cited'')"
  by code_simp

section \<open>The sign of the identifier\<close>

text \<open>In the blob path \<^verbatim>\<open>int()\<close> runs only on digit strings, so that every row it returns,
  degraded or not, has an identifier that is not negative.\<close>

lemma py_int_negative:
  assumes "py_int s = Inr n" and "n < 0"
  shows "CHR ''-'' \<in> set s"
proof -
  let ?t = "dropWhile is_int_space (rev (dropWhile is_int_space (rev s)))"
  have sub: "set ?t \<subseteq> set s"
  proof
    fix x
    assume "x \<in> set ?t"
    then have "x \<in> set (rev (dropWhile is_int_space (rev s)))"
      by (rule set_dropWhileD)
    then have "x \<in> set (dropWhile is_int_space (rev s))"
      by simp
    then have "x \<in> set (rev s)"
      by (rule set_dropWhileD)
    then show "x \<in> set s"
      by simp
  qed
  from assms obtain r where "?t = CHR ''-'' # r"
    by (auto simp: py_int_def Let_def int_body_def bind_err_eq_Inr split: list.splits if_splits)
  then have "CHR ''-'' \<in> set ?t"
    by simp
  with sub show ?thesis
    by blast
qed

lemma isdigit_no_minus: "isdigit s \<Longrightarrow> CHR ''-'' \<notin> set s"
  by (auto simp: isdigit_def list_all_iff is_digit_char_def is_decimal_char_def code_point_def)

lemma isdigit_Cons: "isdigit (c # cs) \<Longrightarrow> is_digit_char c"
  by (simp add: isdigit_def)

lemma int_of_digits_nonneg:
  assumes "isdigit (py_str v)" and "int_of v = Inr n"
  shows "0 \<le> n"
proof (cases v)
  case (PStr s)
  with assms have "isdigit s" "py_int s = Inr n"
    by (simp_all add: py_str_def int_of_def)
  then show ?thesis
    using py_int_negative [of s n] isdigit_no_minus [of s] by fastforce
next
  case (PInt i)
  show ?thesis
  proof (rule ccontr)
    assume "\<not> 0 \<le> n"
    with assms PInt have "isdigit (CHR ''-'' # dec_of_nat (nat (- i)))"
      by (simp add: py_str_def int_of_def dec_of_int_def)
    then show False
      by (auto dest!: isdigit_Cons simp: is_digit_char_def is_decimal_char_def code_point_def)
  qed
next
  case (PBool b)
  with assms show ?thesis
    by (auto simp: int_of_def)
qed (use assms in \<open>simp_all add: int_of_def\<close>)

lemma get_pmid_nonneg: "get_pmid medline pmid = Inr n \<Longrightarrow> 0 \<le> n"
  by (auto simp: get_pmid_def Let_def dest: int_of_digits_nonneg split: if_splits)

lemma degraded_row_nonneg: "degraded_row pmid json_str = Inr row \<Longrightarrow> 0 \<le> PMID row"
  using py_int_negative [of pmid] isdigit_no_minus [of pmid]
  by (fastforce simp: degraded_row_def bind_err_eq_Inr split: if_splits)

lemma blob_identifier_nonneg:
  assumes "extract_fields loads pmid json_str = Inr row"
  shows "0 \<le> PMID row"
proof (cases "loads json_str")
  case (Inl err)
  with assms show ?thesis
    by (auto simp: extract_fields_def dest: degraded_row_nonneg split: if_splits)
next
  case (Inr data)
  with assms have dec: "extract_decoded data pmid json_str = Inr row"
    by (simp add: extract_fields_def)
  then obtain kvs where "data = PDict kvs"
    using extract_decoded_dict by blast
  with dec show ?thesis
    using extract_decoded_pmid get_pmid_nonneg by blast
qed

text \<open>
  C9. The claim does not hold for the XML path: \<^verbatim>\<open>int(pmid_elem.text)\<close> runs on the text as
  it is, without the digit test of the blob path, and a PMID element that reads \<^verbatim>\<open>-5\<close>
  gives a row with the identifier \<open>-5\<close>.
\<close>

theorem negative_identifier:
  "map_option PMID (extract_article_fields negative_pmid_elem) = Some (- 5)
   \<and> xml_pmid (Element ''MedlineCitation'' [] None
        [Element ''PMID'' [] (Some ''-5'') [] None] None) = Inr (- 5)"
  by code_simp

section \<open>The partition router\<close>

text \<open>The two ordered dicts: lookup, keys and sums after an update.\<close>

lemma key_in_keys: "(a, b) \<in> set d \<Longrightarrow> a \<in> fst ` set d"
  by force

lemma map_of_dict_set: "map_of (dict_set k v d) = (map_of d)(k \<mapsto> v)"
  by (induction d) (auto simp: fun_eq_iff)

lemma map_fst_dict_set:
  "map fst (dict_set k v d) = (if k \<in> set (map fst d) then map fst d else map fst d @ [k])"
  by (induction d) (auto dest: key_in_keys)

lemma keys_dict_set: "fst ` set (dict_set k v d) = insert k (fst ` set d)"
proof -
  have "set (map fst (dict_set k v d)) = insert k (set (map fst d))"
    by (auto simp: map_fst_dict_set)
  then show ?thesis
    by simp
qed

lemma count_sum_dict_set: "count_sum (dict_set k v d) + dict_get_nat d k = count_sum d + v"
  by (induction d) (auto simp: count_sum_def dict_get_nat_def)

lemma dict_get_nat_absent: "k \<notin> set (map fst d) \<Longrightarrow> dict_get_nat d k = 0"
  by (simp add: dict_get_nat_def map_of_eq_None_iff [THEN iffD2])

lemma map_of_bucket_append:
  "map_of (bucket_append k r bs) =
     (map_of bs)(k \<mapsto> (case map_of bs k of None \<Rightarrow> [] | Some rs \<Rightarrow> rs) @ [r])"
  by (induction bs) (auto simp: fun_eq_iff)

lemma keys_bucket_append:
  "map fst (bucket_append k r bs) =
     (if k \<in> set (map fst bs) then map fst bs else map fst bs @ [k])"
  by (induction bs) (auto dest: key_in_keys)

lemma distinct_bucket_append:
  "distinct (map fst bs) \<Longrightarrow> distinct (map fst (bucket_append k r bs))"
  by (simp add: keys_bucket_append)

lemma bucket_rows_append: "bucket_rows (bucket_append k r bs) = Suc (bucket_rows bs)"
  by (induction bs) (auto simp: bucket_rows_def)

lemma partition_key_year: "partition_key r = (case Year r of None \<Rightarrow> 0 | Some y \<Rightarrow> y)"
  by (simp add: partition_key_def split: option.splits)

text \<open>
  C6. A routed row is appended to the bucket of its partition key, which is its year, or 0
  when the year is null; every other bucket is unchanged, so the buckets hold exactly one
  row more. Both loops route every row that the extractor returns.
\<close>

theorem route_appends_to_one_bucket:
  "map_of (route bs r) (partition_key r) =
     Some ((case map_of bs (partition_key r) of None \<Rightarrow> [] | Some rs \<Rightarrow> rs) @ [r])
   \<and> (\<forall>k. k \<noteq> partition_key r \<longrightarrow> map_of (route bs r) k = map_of bs k)
   \<and> partition_key r = (case Year r of None \<Rightarrow> 0 | Some y \<Rightarrow> y)
   \<and> bucket_rows (route bs r) = bucket_rows bs + 1
   \<and> (extract_fields loads (py_str pmid) json_str = Inr r \<longrightarrow>
        extract_all loads ((pmid, json_str) # rest) bs = extract_all loads rest (route bs r))
   \<and> (elem_tag e = ''PubmedArticle'' \<and> extract_article_fields e = Some r \<longrightarrow>
        collect_records (e # es) bs n = collect_records es (route bs r) (n + 1))"
proof (intro conjI allI impI)
  show "map_of (route bs r) (partition_key r) =
     Some ((case map_of bs (partition_key r) of None \<Rightarrow> [] | Some rs \<Rightarrow> rs) @ [r])"
    by (simp add: route_def map_of_bucket_append)
next
  fix k
  assume "k \<noteq> partition_key r"
  then show "map_of (route bs r) k = map_of bs k"
    by (simp add: route_def map_of_bucket_append)
next
  show "partition_key r = (case Year r of None \<Rightarrow> 0 | Some y \<Rightarrow> y)"
    by (rule partition_key_year)
next
  show "bucket_rows (route bs r) = bucket_rows bs + 1"
    by (simp add: route_def bucket_rows_append)
next
  assume "extract_fields loads (py_str pmid) json_str = Inr r"
  then show "extract_all loads ((pmid, json_str) # rest) bs = extract_all loads rest (route bs r)"
    by simp
next
  assume "elem_tag e = ''PubmedArticle'' \<and> extract_article_fields e = Some r"
  then show "collect_records (e # es) bs n = collect_records es (route bs r) (n + 1)"
    by simp
qed

text \<open>A row without a year routed into buckets that hold one row of 1998; the same row
  as the loop of the blob path meets it; and the XML record with the identifier 7.\<close>

theorem route_appends_to_one_bucket_witness:
  "map_of (route [(1998, [empty_row 1 ''a''])] (empty_row 2 ''b'')) 0 = Some [empty_row 2 ''b'']
   \<and> map_of (route [(1998, [empty_row 1 ''a''])] (empty_row 2 ''b'')) 1998
       = Some [empty_row 1 ''a'']
   \<and> bucket_rows (route [(1998, [empty_row 1 ''a''])] (empty_row 2 ''b'')) = 2
   \<and> extract_all loads_example [(PStr ''2'', ''b'')] [(1998, [empty_row 1 ''a''])]
       = Inr [(1998, [empty_row 1 ''a'']), (0, [empty_row 2 ''b''])]
   \<and> snd (collect_records [plain_elem] [] 0) = 1
   \<and> bucket_rows (fst (collect_records [plain_elem] [] 0)) = 1"
proof -
  let ?bs = "[(1998 :: int, [empty_row 1 ''a''])]"
  let ?r = "empty_row 2 ''b''"
  have "extract_article_fields plain_elem \<noteq> None"
    by code_simp
  then obtain x where x: "extract_article_fields plain_elem = Some x"
    by auto
  note T = route_appends_to_one_bucket [of ?bs ?r loads_example "PStr ''2''" "''b''" "[]"]
  note X = route_appends_to_one_bucket [of "[]" x loads_example "PStr ''2''" "''b''" "[]"
      plain_elem "[]" 0]
  have k: "partition_key ?r = 0"
    using T by (simp add: empty_row_def)
  have a: "extract_fields loads_example (py_str (PStr ''2'')) ''b'' = Inr ?r"
    by code_simp
  have b: "map_of ?bs 0 = None" "map_of ?bs 1998 = Some [empty_row 1 ''a'']"
    "bucket_rows ?bs = 1"
    by (simp_all add: bucket_rows_def)
  have t: "elem_tag plain_elem = ''PubmedArticle''"
    by code_simp
  have r0: "route ?bs ?r = [(1998, [empty_row 1 ''a'']), (0, [?r])]"
    by (simp add: route_def k)
  have e: "bucket_rows [] = 0"
    by (simp add: bucket_rows_def)
  show ?thesis
    using T X k a b t x r0 e by simp
qed

section \<open>Counting\<close>

lemma count_sum_add_year_counts:
  "count_sum (add_year_counts ys t) = count_sum t + count_sum ys"
proof (induction ys arbitrary: t)
  case Nil
  then show ?case by (simp add: count_sum_def)
next
  case (Cons yc ys)
  obtain year cnt where yc: "yc = (year, cnt)"
    by (cases yc)
  have "count_sum (dict_set year (dict_get_nat t year + cnt) t) = count_sum t + cnt"
    using count_sum_dict_set [of year "dict_get_nat t year + cnt" t] by simp
  then show ?case
    using Cons.IH [of "dict_set year (dict_get_nat t year + cnt) t"]
    by (simp add: yc count_sum_def)
qed

lemma add_stats_counts:
  "count_sum (year_distribution (add_stats m stats))
     = count_sum (year_distribution m) + count_sum (years stats)"
  "total_records (add_stats m stats) = total_records m + records stats"
  by (simp_all add: add_stats_def count_sum_add_year_counts)

lemma reprocess_main_totals:
  "total_records (reprocess_main results m)
     = total_records m + sum_list (map stats_records results)"
  "count_sum (year_distribution (reprocess_main results m))
     = count_sum (year_distribution m) + sum_list (map stats_counts results)"
  by (induction results m rule: reprocess_main.induct)
    (simp_all add: add_stats_counts stats_records_def stats_counts_def)

lemma baseline_main_totals:
  "total_records (baseline_main results m)
     = total_records m + sum_list (map (\<lambda>r. stats_records (task_stats r)) results)"
  "count_sum (year_distribution (baseline_main results m))
     = count_sum (year_distribution m) + sum_list (map (\<lambda>r. stats_counts (task_stats r)) results)"
  by (induction results m rule: baseline_main.induct)
    (simp_all add: add_stats_counts stats_records_def stats_counts_def task_stats_def)

lemma write_partitions_counts:
  assumes "distinct (map fst bs)" and "set (map fst bs) \<inter> set (map fst ys) = {}"
    and "snd (write_partitions wr name bs st ys) = Inr ys'"
  shows "count_sum ys' = count_sum ys + bucket_rows bs"
  using assms
proof (induction bs arbitrary: st ys)
  case Nil
  then show ?case by (simp add: bucket_rows_def)
next
  case (Cons b bs)
  obtain year rs where b: "b = (year, rs)"
    by (cases b)
  from Cons.prems b have ok: "wr year name rs"
    by (auto split: if_splits)
  let ?ys = "dict_set year (length rs) ys"
  from Cons.prems b have absent: "year \<notin> set (map fst ys)"
    by auto
  have sum: "count_sum ?ys = count_sum ys + length rs"
    using count_sum_dict_set [of year "length rs" ys] dict_get_nat_absent [OF absent] by simp
  have "fst ` set bs \<inter> insert year (fst ` set ys) = {}"
    using Cons.prems b by auto
  then have disj: "set (map fst bs) \<inter> set (map fst ?ys) = {}"
    by (simp add: keys_dict_set)
  have step: "snd (write_partitions wr name bs (st((year, name) \<mapsto> rs)) ?ys) = Inr ys'"
    using Cons.prems b ok by simp
  have dist: "distinct (map fst bs)"
    using Cons.prems by simp
  have "count_sum ys' = count_sum ?ys + bucket_rows bs"
    by (rule Cons.IH [OF dist disj step])
  then show ?case
    using sum by (simp add: b bucket_rows_def)
qed

lemma extract_all_rows:
  "extract_all loads rows bs = Inr bs' \<Longrightarrow>
   bucket_rows bs' = bucket_rows bs + length rows
     \<and> (distinct (map fst bs) \<longrightarrow> distinct (map fst bs'))"
proof (induction rows arbitrary: bs)
  case Nil
  then show ?case by simp
next
  case (Cons row rows)
  obtain pmid json_str where row: "row = (pmid, json_str)"
    by (cases row)
  from Cons.prems row obtain r where
    r: "extract_fields loads (py_str pmid) json_str = Inr r"
    and rest: "extract_all loads rows (route bs r) = Inr bs'"
    by (auto simp: bind_err_eq_Inr)
  from Cons.IH [OF rest] show ?case
    by (simp add: route_def bucket_rows_append distinct_bucket_append)
qed

lemma collect_records_rows:
  "collect_records es bs n = (bs', n') \<Longrightarrow>
   n' = n + length (filter accepted es)
     \<and> bucket_rows bs' = bucket_rows bs + length (filter accepted es)
     \<and> (distinct (map fst bs) \<longrightarrow> distinct (map fst bs'))"
proof (induction es arbitrary: bs n)
  case Nil
  then show ?case by simp
next
  case (Cons e es)
  show ?case
  proof (cases "accepted e")
    case True
    then obtain r where r: "extract_article_fields e = Some r"
      and tg: "elem_tag e = ''PubmedArticle''"
      by (auto simp: accepted_def)
    with Cons.prems have "collect_records es (route bs r) (n + 1) = (bs', n')"
      by simp
    from Cons.IH [OF this] True show ?thesis
      by (simp add: route_def bucket_rows_append distinct_bucket_append)
  next
    case False
    with Cons.prems have "collect_records es bs n = (bs', n')"
      by (auto simp: accepted_def split: if_splits option.splits)
    from Cons.IH [OF this] False show ?thesis
      by simp
  qed
qed

lemma process_parquet_file_counts:
  assumes "snd (process_parquet_file out_name loads wr inp st) = Inr stats"
  shows "count_sum (years stats) = records stats \<and> records stats = length (table_rows inp)"
proof -
  from assms obtain bs where bs: "extract_all loads (table_rows inp) [] = Inr bs"
    by (auto simp: process_parquet_file_def split: sum.splits)
  obtain st' res where w: "write_partitions wr (out_name (input_path inp)) bs st [] = (st', res)"
    by (cases "write_partitions wr (out_name (input_path inp)) bs st []")
  with assms bs obtain ys where ys: "res = Inr ys"
    and stats: "stats = \<lparr>input_file = input_path inp,
        records = length (table_rows inp), years = ys\<rparr>"
    by (auto simp: process_parquet_file_def split: sum.splits)
  from extract_all_rows [OF bs] have rows: "bucket_rows bs = length (table_rows inp)"
    and dist: "distinct (map fst bs)"
    by (simp_all add: bucket_rows_def)
  have "count_sum ys = count_sum [] + bucket_rows bs"
    using write_partitions_counts [of bs "[]" wr "out_name (input_path inp)" st ys] dist w ys
    by simp
  then show ?thesis
    using rows stats by (simp add: count_sum_def)
qed

lemma accepted_dropped:
  "length (filter accepted es)
     + length (filter (\<lambda>e. elem_tag e = ''PubmedArticle'' \<and> extract_article_fields e = None) es)
     = length (filter (\<lambda>e. elem_tag e = ''PubmedArticle'') es)"
  by (induction es) (auto simp: accepted_def)

lemma process_xml_file_counts:
  assumes "snd (process_xml_file out_name wr inp st) = Inr (Stats stats)"
  shows "count_sum (years stats) = records stats
     \<and> records stats + dropped_articles inp = pubmed_articles inp"
proof -
  from assms have rd: "readable inp"
    by (auto simp: process_xml_file_def split: if_splits)
  obtain bs n where c: "collect_records (events inp) [] 0 = (bs, n)"
    by (cases "collect_records (events inp) [] 0")
  obtain st' res where w: "write_partitions wr (out_name (xml_gz_path inp)) bs st [] = (st', res)"
    by (cases "write_partitions wr (out_name (xml_gz_path inp)) bs st []")
  with assms rd c obtain ys where ys: "res = Inr ys"
    and stats: "stats = \<lparr>input_file = xml_gz_path inp, records = n, years = ys\<rparr>"
    by (auto simp: process_xml_file_def split: sum.splits)
  from collect_records_rows [OF c] have n: "n = length (filter accepted (events inp))"
    and rows: "bucket_rows bs = length (filter accepted (events inp))"
    and dist: "distinct (map fst bs)"
    by (simp_all add: bucket_rows_def)
  have "count_sum ys = count_sum [] + bucket_rows bs"
    using write_partitions_counts [of bs "[]" wr "out_name (xml_gz_path inp)" st ys] dist w ys
    by simp
  then show ?thesis
    using rows n stats accepted_dropped [of "events inp"]
    by (simp add: count_sum_def dropped_articles_def pubmed_articles_def)
qed

lemma parquet_task_counts:
  "stats_counts (snd (process_parquet_file out_name loads wr inp st))
     = stats_records (snd (process_parquet_file out_name loads wr inp st))"
  "stats_records (snd (process_parquet_file out_name loads wr inp st))
     = parquet_decoded out_name loads wr (inp, st)"
  using process_parquet_file_counts [of out_name loads wr inp st]
  by (auto simp: stats_counts_def stats_records_def parquet_decoded_def split: sum.splits)

lemma xml_task_counts:
  "stats_counts (task_stats (snd (process_xml_file out_name wr inp st)))
     = stats_records (task_stats (snd (process_xml_file out_name wr inp st)))"
  "stats_records (task_stats (snd (process_xml_file out_name wr inp st)))
     + xml_dropped out_name wr (inp, st) = xml_decoded out_name wr (inp, st)"
  using process_xml_file_counts [of out_name wr inp st]
  by (auto simp: stats_counts_def stats_records_def xml_decoded_def xml_dropped_def
      task_stats_def split: sum.splits task_result.splits)

text \<open>
  C7 (as amended). For every run of either script, whatever the order in which the tasks
  complete, the per-year counts of the run metadata add up to its total record count, and
  the total is the sum of the record counts that the tasks returned (0 for a task that
  raised or returned the error record). The total is the number of source records that the
  decoder supplied to the tasks that returned statistics, less the XML records that were
  dropped because the extractor returned nothing for them. For every task that returns
  statistics, its per-year counts add up to its record count.
\<close>

theorem partition_completeness:
  "(let results = map (\<lambda>task. snd (process_parquet_file out_name loads wr (fst task) (snd task)))
                    tasks;
        m = reprocess_main results no_metadata
    in count_sum (year_distribution m) = total_records m
       \<and> total_records m = sum_list (map stats_records results)
       \<and> total_records m = sum_list (map (parquet_decoded out_name loads wr) tasks))
   \<and> (let results = map (\<lambda>task. snd (process_xml_file out_name wr (fst task) (snd task))) xtasks;
           m = baseline_main results no_metadata
       in count_sum (year_distribution m) = total_records m
          \<and> total_records m = sum_list (map (\<lambda>r. stats_records (task_stats r)) results)
          \<and> total_records m + sum_list (map (xml_dropped out_name wr) xtasks)
              = sum_list (map (xml_decoded out_name wr) xtasks))
   \<and> (snd (process_parquet_file out_name loads wr inp st) = Inr stats \<longrightarrow>
         count_sum (years stats) = records stats
         \<and> records stats = length (table_rows inp))
   \<and> (snd (process_xml_file out_name wr xinp xst) = Inr (Stats xstats) \<longrightarrow>
         count_sum (years xstats) = records xstats
         \<and> records xstats + dropped_articles xinp = pubmed_articles xinp)"
proof (intro conjI impI)
  let ?results = "map (\<lambda>task. snd (process_parquet_file out_name loads wr (fst task) (snd task)))
      tasks"
  have c: "map stats_counts ?results = map stats_records ?results"
    by (simp add: parquet_task_counts(1))
  have d: "map stats_records ?results = map (parquet_decoded out_name loads wr) tasks"
    by (simp add: parquet_task_counts(2))
  show "let results = ?results; m = reprocess_main results no_metadata
    in count_sum (year_distribution m) = total_records m
       \<and> total_records m = sum_list (map stats_records results)
       \<and> total_records m = sum_list (map (parquet_decoded out_name loads wr) tasks)"
    unfolding Let_def reprocess_main_totals c d
    by (simp add: no_metadata_def count_sum_def)
next
  let ?results = "map (\<lambda>task. snd (process_xml_file out_name wr (fst task) (snd task))) xtasks"
  have c: "map (\<lambda>r. stats_counts (task_stats r)) ?results
      = map (\<lambda>r. stats_records (task_stats r)) ?results"
    by (simp add: xml_task_counts(1))
  have "sum_list (map (\<lambda>r. stats_records (task_stats r)) ?results)
        + sum_list (map (xml_dropped out_name wr) xtasks)
      = sum_list (map (\<lambda>task.
            stats_records (task_stats (snd (process_xml_file out_name wr (fst task) (snd task))))
              + xml_dropped out_name wr task) xtasks)"
    by (simp add: sum_list_addf comp_def)
  also have "\<dots> = sum_list (map (xml_decoded out_name wr) xtasks)"
    using xml_task_counts(2) [of out_name wr]
    by (intro arg_cong [where f = sum_list] map_cong refl) (metis prod.collapse)
  finally have d: "sum_list (map (\<lambda>r. stats_records (task_stats r)) ?results)
        + sum_list (map (xml_dropped out_name wr) xtasks)
      = sum_list (map (xml_decoded out_name wr) xtasks)" .
  show "let results = ?results; m = baseline_main results no_metadata
       in count_sum (year_distribution m) = total_records m
          \<and> total_records m = sum_list (map (\<lambda>r. stats_records (task_stats r)) results)
          \<and> total_records m + sum_list (map (xml_dropped out_name wr) xtasks)
              = sum_list (map (xml_decoded out_name wr) xtasks)"
    unfolding Let_def baseline_main_totals c
    using d by (simp add: no_metadata_def count_sum_def)
next
  assume "snd (process_parquet_file out_name loads wr inp st) = Inr stats"
  then show "count_sum (years stats) = records stats"
    and "records stats = length (table_rows inp)"
    using process_parquet_file_counts by blast+
next
  assume "snd (process_xml_file out_name wr xinp xst) = Inr (Stats xstats)"
  then show "count_sum (years xstats) = records xstats"
    and "records xstats + dropped_articles xinp = pubmed_articles xinp"
    using process_xml_file_counts by blast+
qed

text \<open>A run of the blob path over the example table and a table that makes the task
  raise, and a run of the XML path over the example file, which supplies three records of
  which one is dropped.\<close>

theorem partition_completeness_witness:
  "count_sum [(0, 2), (1998, 1)] = 3
   \<and> length (table_rows example_parquet) = 3
   \<and> reprocess_main
        (map (\<lambda>task. snd (process_parquet_file example_out_name loads_example example_writer
                (fst task) (snd task)))
           [(example_parquet, Map.empty), (example_bad_parquet, Map.empty)]) no_metadata
       = \<lparr>total_records = 3, year_distribution = [(0, 2), (1998, 1)]\<rparr>
   \<and> pubmed_articles example_xml = 3
   \<and> dropped_articles example_xml = 1
   \<and> baseline_main
        (map (\<lambda>task. snd (process_xml_file example_out_name example_writer (fst task) (snd task)))
           [(example_xml, Map.empty)]) no_metadata
       = \<lparr>total_records = 2, year_distribution = [(0, 2)]\<rparr>"
proof -
  let ?stats = "\<lparr>input_file = ''brick/pubmed.parquet/pubmed25n0001.parquet'', records = 3,
      years = [(0, 2), (1998, 1)]\<rparr>"
  let ?xstats = "\<lparr>input_file = ''download/baseline/pubmed25n0001.xml.gz'', records = 2,
      years = [(0, 2)]\<rparr>"
  have a: "snd (process_parquet_file example_out_name loads_example example_writer
      example_parquet Map.empty) = Inr ?stats"
    by code_simp
  have b: "snd (process_parquet_file example_out_name loads_example example_writer
      example_bad_parquet Map.empty) = Inl AttributeError"
    by code_simp
  have c: "snd (process_xml_file example_out_name example_writer example_xml Map.empty)
      = Inr (Stats ?xstats)"
    by code_simp
  note T = partition_completeness [of example_out_name loads_example example_writer
      "[(example_parquet, Map.empty), (example_bad_parquet, Map.empty)]"
      "[(example_xml, Map.empty)]" example_parquet Map.empty ?stats example_xml Map.empty
      ?xstats]
  have p: "count_sum (years ?stats) = records ?stats
      \<and> records ?stats = length (table_rows example_parquet)"
    by (rule mp [OF conjunct1 [OF conjunct2 [OF conjunct2 [OF T]]] a])
  have q: "count_sum (years ?xstats) = records ?xstats
      \<and> records ?xstats + dropped_articles example_xml = pubmed_articles example_xml"
    by (rule mp [OF conjunct2 [OF conjunct2 [OF conjunct2 [OF T]]] c])
  have d: "dropped_articles example_xml = 1"
    by code_simp
  have m: "reprocess_main [Inr ?stats, Inl AttributeError] no_metadata
      = \<lparr>total_records = 3, year_distribution = [(0, 2), (1998, 1)]\<rparr>"
    by code_simp
  have x: "baseline_main [Inr (Stats ?xstats)] no_metadata
      = \<lparr>total_records = 2, year_distribution = [(0, 2)]\<rparr>"
    by code_simp
  show ?thesis
    using p q m x a b c d by simp
qed

text \<open>
  The claim as stated fails. The example XML file supplies three records, one of them
  without a citation, and the run counts two; and when every write of a task fails, the
  three rows of the example table have been decoded and the run counts none.
\<close>

theorem decoded_records_not_counted_counterexample:
  "pubmed_articles example_xml = 3
   \<and> baseline_main
        (map (\<lambda>task. snd (process_xml_file example_out_name example_writer (fst task) (snd task)))
           [(example_xml, Map.empty)]) no_metadata
       = \<lparr>total_records = 2, year_distribution = [(0, 2)]\<rparr>
   \<and> length (table_rows example_parquet) = 3
   \<and> snd (process_parquet_file example_out_name loads_example failing_writer example_parquet
          Map.empty) = Inl OtherError
   \<and> reprocess_main
        (map (\<lambda>task. snd (process_parquet_file example_out_name loads_example failing_writer
                (fst task) (snd task)))
           [(example_parquet, Map.empty)]) no_metadata
       = \<lparr>total_records = 0, year_distribution = []\<rparr>"
  by code_simp

section \<open>Running a task again\<close>

lemma write_partitions_store:
  "fst (write_partitions wr name bs st ys) = st ++ partitions_written wr name bs"
proof (induction bs arbitrary: st ys)
  case Nil
  then show ?case by simp
next
  case (Cons b bs)
  obtain year rs where b: "b = (year, rs)"
    by (cases b)
  have "st((year, name) \<mapsto> rs) ++ partitions_written wr name bs
      = st ++ ([(year, name) \<mapsto> rs] ++ partitions_written wr name bs)"
    by (simp add: map_add_assoc [symmetric])
  then show ?case
    using Cons.IH by (simp add: b)
qed

lemma write_partitions_result:
  "snd (write_partitions wr name bs st ys) = snd (write_partitions wr name bs st' ys)"
proof (induction bs arbitrary: st st' ys)
  case Nil
  then show ?case by simp
next
  case (Cons b bs)
  obtain year rs where b: "b = (year, rs)"
    by (cases b)
  show ?case
  proof (cases "wr year name rs")
    case True
    then show ?thesis
      unfolding b by (simp only: write_partitions.simps if_True) (rule Cons.IH)
  next
    case False
    then show ?thesis
      by (simp add: b)
  qed
qed

lemma map_add_twice: "(st ++ w) ++ w = st ++ (w :: 'a \<rightharpoonup> 'b)"
  by (simp add: map_add_def fun_eq_iff split: option.splits)

lemma write_partitions_again:
  "write_partitions wr name bs (fst (write_partitions wr name bs st ys)) ys
     = write_partitions wr name bs st ys"
proof (rule prod_eqI)
  show "fst (write_partitions wr name bs (fst (write_partitions wr name bs st ys)) ys)
      = fst (write_partitions wr name bs st ys)"
    by (simp add: write_partitions_store map_add_twice)
  show "snd (write_partitions wr name bs (fst (write_partitions wr name bs st ys)) ys)
      = snd (write_partitions wr name bs st ys)"
    by (rule write_partitions_result)
qed

lemma process_parquet_file_store:
  "fst (process_parquet_file out_name loads wr inp st)
     = st ++ parquet_partitions out_name loads wr inp"
proof (cases "extract_all loads (table_rows inp) []")
  case (Inl e)
  then show ?thesis
    by (simp add: process_parquet_file_def parquet_partitions_def)
next
  case (Inr bs)
  have "fst (process_parquet_file out_name loads wr inp st)
      = fst (write_partitions wr (out_name (input_path inp)) bs st [])"
    by (simp add: process_parquet_file_def Inr split: prod.splits sum.splits)
  then show ?thesis
    by (simp add: write_partitions_store parquet_partitions_def Inr)
qed

lemma process_parquet_file_result:
  "snd (process_parquet_file out_name loads wr inp st)
     = snd (process_parquet_file out_name loads wr inp st')"
proof (cases "extract_all loads (table_rows inp) []")
  case (Inl e)
  then show ?thesis
    by (simp add: process_parquet_file_def)
next
  case (Inr bs)
  show ?thesis
    using write_partitions_result [of wr "out_name (input_path inp)" bs st "[]" st']
    by (auto simp: process_parquet_file_def Inr split: prod.splits sum.splits)
qed

lemma process_xml_file_store:
  "fst (process_xml_file out_name wr inp st) = st ++ xml_partitions out_name wr inp"
proof (cases "readable inp")
  case False
  then show ?thesis
    by (simp add: process_xml_file_def xml_partitions_def)
next
  case True
  obtain bs n where c: "collect_records (events inp) [] 0 = (bs, n)"
    by (cases "collect_records (events inp) [] 0")
  have "fst (process_xml_file out_name wr inp st)
      = fst (write_partitions wr (out_name (xml_gz_path inp)) bs st [])"
    by (simp add: process_xml_file_def True c split: prod.splits sum.splits)
  then show ?thesis
    by (simp add: write_partitions_store xml_partitions_def True c)
qed

lemma process_xml_file_result:
  "snd (process_xml_file out_name wr inp st) = snd (process_xml_file out_name wr inp st')"
proof (cases "readable inp")
  case False
  then show ?thesis
    by (simp add: process_xml_file_def)
next
  case True
  obtain bs n where c: "collect_records (events inp) [] 0 = (bs, n)"
    by (cases "collect_records (events inp) [] 0")
  show ?thesis
    using write_partitions_result [of wr "out_name (xml_gz_path inp)" bs st "[]" st']
    by (auto simp: process_xml_file_def True c split: prod.splits sum.splits)
qed

text \<open>
  C8. A task is a function of its input file: run again on the output tree that its first
  run left, it returns the same result and leaves the tree as it was. The tree after a run
  is the tree before it with the partitions of the task laid over it, whatever the files
  of these partitions held before.
\<close>

theorem reprocessing_is_idempotent:
  "process_parquet_file out_name loads wr inp (fst (process_parquet_file out_name loads wr inp st))
     = process_parquet_file out_name loads wr inp st
   \<and> fst (process_parquet_file out_name loads wr inp st)
       = st ++ parquet_partitions out_name loads wr inp
   \<and> process_xml_file out_name wr xinp (fst (process_xml_file out_name wr xinp xst))
       = process_xml_file out_name wr xinp xst
   \<and> fst (process_xml_file out_name wr xinp xst) = xst ++ xml_partitions out_name wr xinp"
proof (intro conjI)
  show "process_parquet_file out_name loads wr inp
          (fst (process_parquet_file out_name loads wr inp st))
      = process_parquet_file out_name loads wr inp st"
  proof (rule prod_eqI)
    show "fst (process_parquet_file out_name loads wr inp
            (fst (process_parquet_file out_name loads wr inp st)))
        = fst (process_parquet_file out_name loads wr inp st)"
      by (simp add: process_parquet_file_store map_add_twice)
    show "snd (process_parquet_file out_name loads wr inp
            (fst (process_parquet_file out_name loads wr inp st)))
        = snd (process_parquet_file out_name loads wr inp st)"
      by (rule process_parquet_file_result)
  qed
  show "fst (process_parquet_file out_name loads wr inp st)
      = st ++ parquet_partitions out_name loads wr inp"
    by (rule process_parquet_file_store)
  show "process_xml_file out_name wr xinp (fst (process_xml_file out_name wr xinp xst))
      = process_xml_file out_name wr xinp xst"
  proof (rule prod_eqI)
    show "fst (process_xml_file out_name wr xinp (fst (process_xml_file out_name wr xinp xst)))
        = fst (process_xml_file out_name wr xinp xst)"
      by (simp add: process_xml_file_store map_add_twice)
    show "snd (process_xml_file out_name wr xinp (fst (process_xml_file out_name wr xinp xst)))
        = snd (process_xml_file out_name wr xinp xst)"
      by (rule process_xml_file_result)
  qed
  show "fst (process_xml_file out_name wr xinp xst) = xst ++ xml_partitions out_name wr xinp"
    by (rule process_xml_file_store)
qed

section \<open>Undecodable blobs\<close>

lemma degraded_row_shape:
  assumes "extract_fields loads pmid json_str = Inr r" and "loads json_str = Inl JSONDecodeError"
  shows "\<exists>n. r = empty_row n json_str"
  using assms by (auto simp: extract_fields_def degraded_row_def empty_row_def bind_err_eq_Inr)

lemma extract_all_keeps:
  "extract_all loads rows bs = Inr bs' \<Longrightarrow> map_of bs k = Some rs0 \<Longrightarrow>
   \<exists>rs. map_of bs' k = Some rs \<and> set rs0 \<subseteq> set rs"
proof (induction rows arbitrary: bs rs0)
  case Nil
  then show ?case by simp
next
  case (Cons row rows)
  obtain pmid json_str where row: "row = (pmid, json_str)"
    by (cases row)
  from Cons.prems row obtain r where
    rest: "extract_all loads rows (route bs r) = Inr bs'"
    by (auto simp: bind_err_eq_Inr)
  obtain rs1 where rs1: "map_of (route bs r) k = Some rs1" and sub: "set rs0 \<subseteq> set rs1"
    using Cons.prems(2) by (cases "k = partition_key r") (auto simp: route_def map_of_bucket_append)
  from Cons.IH [OF rest rs1] sub show ?case
    by blast
qed

lemma extract_all_member:
  "extract_all loads rows bs = Inr bs' \<Longrightarrow> (pmid, json_str) \<in> set rows \<Longrightarrow>
   \<exists>r rs. extract_fields loads (py_str pmid) json_str = Inr r
      \<and> map_of bs' (partition_key r) = Some rs \<and> r \<in> set rs"
proof (induction rows arbitrary: bs)
  case Nil
  then show ?case by simp
next
  case (Cons row rows)
  obtain p j where row: "row = (p, j)"
    by (cases row)
  from Cons.prems row obtain r where
    r: "extract_fields loads (py_str p) j = Inr r"
    and rest: "extract_all loads rows (route bs r) = Inr bs'"
    by (auto simp: bind_err_eq_Inr)
  show ?case
  proof (cases "(pmid, json_str) = (p, j)")
    case True
    obtain rs1 where "map_of (route bs r) (partition_key r) = Some rs1" and "r \<in> set rs1"
      by (simp add: route_def map_of_bucket_append)
    with extract_all_keeps [OF rest] obtain rs where
      "map_of bs' (partition_key r) = Some rs" "r \<in> set rs"
      by blast
    with r True show ?thesis
      by auto
  next
    case False
    with Cons.prems row have "(pmid, json_str) \<in> set rows"
      by auto
    from Cons.IH [OF rest this] show ?thesis .
  qed
qed

lemma write_partitions_untouched:
  "snd (write_partitions wr name bs st ys) = Inr ys' \<Longrightarrow> k \<notin> set (map fst bs) \<Longrightarrow>
   map_of ys' k = map_of ys k"
proof (induction bs arbitrary: st ys)
  case Nil
  then show ?case by simp
next
  case (Cons b bs)
  obtain year rs where b: "b = (year, rs)"
    by (cases b)
  from Cons.prems b have ok: "wr year name rs" and ne: "k \<noteq> year"
    and step: "snd (write_partitions wr name bs (st((year, name) \<mapsto> rs))
        (dict_set year (length rs) ys)) = Inr ys'"
    and notin: "k \<notin> set (map fst bs)"
    by (auto split: if_splits)
  from Cons.IH [OF step notin] ne show ?case
    by (simp add: map_of_dict_set)
qed

lemma partitions_written_untouched:
  "k \<notin> set (map fst bs) \<Longrightarrow> partitions_written wr name bs (k, name) = None"
  by (induction bs) (auto simp: map_add_def split: option.splits)

lemma write_partitions_lookup:
  "distinct (map fst bs) \<Longrightarrow> snd (write_partitions wr name bs st ys) = Inr ys' \<Longrightarrow>
   map_of bs k = Some rs \<Longrightarrow>
   partitions_written wr name bs (k, name) = Some rs \<and> map_of ys' k = Some (length rs)"
proof (induction bs arbitrary: st ys)
  case Nil
  then show ?case by simp
next
  case (Cons b bs)
  obtain year rs1 where b: "b = (year, rs1)"
    by (cases b)
  from Cons.prems b have ok: "wr year name rs1"
    and step: "snd (write_partitions wr name bs (st((year, name) \<mapsto> rs1))
        (dict_set year (length rs1) ys)) = Inr ys'"
    and dist: "distinct (map fst bs)" and fresh: "year \<notin> set (map fst bs)"
    by (auto split: if_splits)
  show ?case
  proof (cases "k = year")
    case True
    with Cons.prems b have rs: "rs = rs1"
      by simp
    have "map_of ys' year = map_of (dict_set year (length rs1) ys) year"
      by (rule write_partitions_untouched [OF step fresh])
    then show ?thesis
      using True rs ok partitions_written_untouched [OF fresh, of wr name]
      by (simp add: b map_of_dict_set map_add_def)
  next
    case False
    with Cons.prems b have "map_of bs k = Some rs"
      by simp
    from Cons.IH [OF dist step this] show ?thesis
      using ok False by (simp add: b map_add_def)
  qed
qed

text \<open>
  What holds when a task of the blob path returns its statistics: every input row whose
  blob fails to decode has given a degraded row with a null year and the verbatim blob;
  that row is in the file the task wrote under the partition key 0, the count of the key 0
  in the statistics is the number of rows of this file, and the record count of the task
  counts every input row.
\<close>

lemma undecodable_blob_kept:
  "snd (process_parquet_file out_name loads wr inp st) = Inr stats
     \<and> (pmid, json_str) \<in> set (table_rows inp) \<and> loads json_str = Inl JSONDecodeError \<longrightarrow>
   (\<exists>n rs. extract_fields loads (py_str pmid) json_str = Inr (empty_row n json_str)
      \<and> Year (empty_row n json_str) = None
      \<and> partition_key (empty_row n json_str) = 0
      \<and> fst (process_parquet_file out_name loads wr inp st) (0, out_name (input_path inp))
          = Some rs
      \<and> empty_row n json_str \<in> set rs
      \<and> map_of (years stats) 0 = Some (length rs)
      \<and> records stats = length (table_rows inp))"
proof
  assume a: "snd (process_parquet_file out_name loads wr inp st) = Inr stats
     \<and> (pmid, json_str) \<in> set (table_rows inp) \<and> loads json_str = Inl JSONDecodeError"
  let ?name = "out_name (input_path inp)"
  from a obtain bs where bs: "extract_all loads (table_rows inp) [] = Inr bs"
    by (auto simp: process_parquet_file_def split: sum.splits)
  obtain st' res where w: "write_partitions wr ?name bs st [] = (st', res)"
    by (cases "write_partitions wr ?name bs st []")
  with a bs obtain ys where ys: "res = Inr ys" and stats: "years stats = ys"
    by (auto simp: process_parquet_file_def split: sum.splits)
  from extract_all_member [OF bs] a obtain r rs where
    r: "extract_fields loads (py_str pmid) json_str = Inr r"
    and look: "map_of bs (partition_key r) = Some rs" and mem: "r \<in> set rs"
    by blast
  from degraded_row_shape [OF r] a obtain n where n: "r = empty_row n json_str"
    by blast
  have key: "partition_key r = 0" and yr: "Year r = None"
    by (simp_all add: n empty_row_def partition_key_def)
  from extract_all_rows [OF bs] have dist: "distinct (map fst bs)"
    by simp
  have sn: "snd (write_partitions wr ?name bs st []) = Inr ys"
    using w ys by simp
  from write_partitions_lookup [OF dist sn] look key
  have pw: "partitions_written wr ?name bs (0, ?name) = Some rs"
    and cnt: "map_of ys 0 = Some (length rs)"
    by simp_all
  have "fst (process_parquet_file out_name loads wr inp st) = st ++ partitions_written wr ?name bs"
    by (simp add: process_parquet_file_store parquet_partitions_def bs)
  then have written: "fst (process_parquet_file out_name loads wr inp st) (0, ?name) = Some rs"
    using pw by (simp add: map_add_def)
  have recs: "records stats = length (table_rows inp)"
    using a process_parquet_file_counts by blast
  show "\<exists>n rs. extract_fields loads (py_str pmid) json_str = Inr (empty_row n json_str)
      \<and> Year (empty_row n json_str) = None
      \<and> partition_key (empty_row n json_str) = 0
      \<and> fst (process_parquet_file out_name loads wr inp st) (0, out_name (input_path inp))
          = Some rs
      \<and> empty_row n json_str \<in> set rs
      \<and> map_of (years stats) 0 = Some (length rs)
      \<and> records stats = length (table_rows inp)"
    using r n yr key written mem cnt stats recs by blast
qed

text \<open>The third row of the example table.\<close>

lemma undecodable_blob_kept_example:
  "extract_fields loads_example (py_str (PStr ''6'')) ''not json''
     = Inr (empty_row 6 ''not json'')
   \<and> fst (process_parquet_file example_out_name loads_example example_writer example_parquet
          Map.empty) (0, ''pubmed25n0001.parquet'')
       = Some [empty_row 5 ''{}'', empty_row 6 ''not json'']
   \<and> empty_row 6 ''not json'' \<in> set [empty_row 5 ''{}'', empty_row 6 ''not json'']
   \<and> map_of [(0 :: int, 2 :: nat), (1998, 1)] 0 = Some 2"
proof -
  let ?stats = "\<lparr>input_file = ''brick/pubmed.parquet/pubmed25n0001.parquet'', records = 3,
      years = [(0, 2), (1998, 1)]\<rparr>"
  have a: "snd (process_parquet_file example_out_name loads_example example_writer
      example_parquet Map.empty) = Inr ?stats"
    by code_simp
  have b: "(PStr ''6'', ''not json'') \<in> set (table_rows example_parquet)"
    by (simp add: example_parquet_def)
  have c: "loads_example ''not json'' = Inl JSONDecodeError"
    by code_simp
  have d: "extract_fields loads_example (py_str (PStr ''6'')) ''not json''
      = Inr (empty_row 6 ''not json'')"
    by code_simp
  have e: "fst (process_parquet_file example_out_name loads_example example_writer
      example_parquet Map.empty) (0, ''pubmed25n0001.parquet'')
      = Some [empty_row 5 ''{}'', empty_row 6 ''not json'']"
    by code_simp
  note T = undecodable_blob_kept [of example_out_name loads_example
      example_writer example_parquet Map.empty ?stats "PStr ''6''" "''not json''"]
  from mp [OF T conjI [OF a conjI [OF b c]]] obtain n rs where
    "extract_fields loads_example (py_str (PStr ''6'')) ''not json''
       = Inr (empty_row n ''not json'')"
    and "fst (process_parquet_file example_out_name loads_example example_writer
      example_parquet Map.empty) (0, example_out_name (input_path example_parquet)) = Some rs"
    and "empty_row n ''not json'' \<in> set rs"
    and "map_of (years ?stats) 0 = Some (length rs)"
    by blast
  then show ?thesis
    using d e by (simp add: example_out_name_def empty_row_def)
qed

text \<open>
  C10. The claim does not hold for every input row. The row is lost with its whole file
  when another row of the table makes \<^verbatim>\<open>extract_fields\<close> raise: only \<^verbatim>\<open>JSONDecodeError\<close> is
  caught, and a blob that decodes to something other than an object raises
  \<^verbatim>\<open>AttributeError\<close> at \<^verbatim>\<open>data.get\<close>, before any partition is written. In the table of two rows
  the first blob is undecodable and gets its degraded row, the second is the empty array:
  the task raises, no file exists under the key 0 and the run counts nothing. The handler of
  the decode failure raises itself when the row's own PMID string is the superscript two,
  which passes \<^verbatim>\<open>str.isdigit\<close> and which \<^verbatim>\<open>int()\<close> rejects. The XML path catches every exception
  of a record and goes on with the next.
\<close>

theorem undecodable_blob_lost:
  "extract_fields loads_example (py_str (PStr ''6'')) ''not json''
     = Inr (empty_row 6 ''not json'')
   \<and> extract_fields loads_example (py_str (PStr ''9'')) ''[]'' = Inl AttributeError
   \<and> snd (process_parquet_file example_out_name loads_example example_writer
          example_bad_parquet Map.empty) = Inl AttributeError
   \<and> fst (process_parquet_file example_out_name loads_example example_writer
          example_bad_parquet Map.empty) (0, ''pubmed25n0002.parquet'') = None
   \<and> reprocess_main
        [snd (process_parquet_file example_out_name loads_example example_writer
           example_bad_parquet Map.empty)] no_metadata
       = \<lparr>total_records = 0, year_distribution = []\<rparr>
   \<and> extract_fields loads_example [CHR 0xB2] ''not json'' = Inl ValueError
   \<and> snd (collect_records [bad_pmid_elem, plain_elem] [] 0) = 1"
  by code_simp

end
